theory Spec2Isabelle
  imports Main
begin

section \<open>Data model of the action system\<close>

text \<open>
  The action components of \<^verbatim>\<open>actions.ts\<close> work on objects that are shared by reference:
  the actor of an action is the very character object that a player of \<^verbatim>\<open>game.players\<close>
  holds. Animal objects therefore live in a store (\<open>heap\<close>), and actions and players hold
  references into it. A \<^verbatim>\<open>perform\<close> returns the state in which it ends together with its
  result or the fault that it throws: what it has mutated before a throw stays mutated.
  Positions on the grid, timestamps and meters are integers, on which the components
  modelled here do no more than stay inside the map.
\<close>

type_synonym ref = nat
type_synonym Position = "int \<times> int"

datatype Fault = Error string | TypeError

section \<open>JavaScript numbers\<close>

text \<open>
  The quantities on which the components compute (stats, stack amounts, weapon figures,
  strike counts, transaction amounts) are JavaScript numbers: IEEE 754 doubles. The item
  tables and \<^verbatim>\<open>parseInt\<close> produce whole numbers, and sums, differences and products of
  whole doubles are whole, so a number is an integer-valued double, an infinity or NaN;
  the two zeros are one here, since no component tells them apart. Every operation rounds
  its exact result to the nearest double, ties to the even significand of 53 bits, and to
  an infinity from \<open>2 ^ 1024\<close> on.
\<close>

datatype Number = Num int | Infinity | NegInfinity | NaN

text \<open>The integer nearest to \<open>p / q\<close>, a tie going to the even one.\<close>

definition roundHalfEven :: "nat \<Rightarrow> nat \<Rightarrow> nat" where
  "roundHalfEven p q =
     (let d = p div q; r = p mod q
      in if q < 2 * r \<or> (2 * r = q \<and> odd d) then Suc d else d)"

text \<open>The number of binary digits.\<close>

fun bitLength :: "nat \<Rightarrow> nat" where
  "bitLength n = (if n = 0 then 0 else Suc (bitLength (n div 2)))"

declare bitLength.simps [simp del]

text \<open>The double nearest to a natural number, without the bound on the exponent.\<close>

definition toDoubleNat :: "nat \<Rightarrow> nat" where
  "toDoubleNat m =
     (if m < 2 ^ 53 then m
      else (let k = bitLength m - 53 in roundHalfEven m (2 ^ k) * 2 ^ k))"

definition toDouble :: "int \<Rightarrow> Number" where
  "toDouble i =
     (let m = toDoubleNat (nat \<bar>i\<bar>)
      in if 2 ^ 1024 \<le> m then (if i < 0 then NegInfinity else Infinity)
         else Num (if i < 0 then - int m else int m))"

fun Number_negate :: "Number \<Rightarrow> Number" where
  "Number_negate (Num a) = Num (- a)"
| "Number_negate Infinity = NegInfinity"
| "Number_negate NegInfinity = Infinity"
| "Number_negate NaN = NaN"

fun Number_add :: "Number \<Rightarrow> Number \<Rightarrow> Number" where
  "Number_add (Num a) (Num b) = toDouble (a + b)"
| "Number_add NaN y = NaN"
| "Number_add x NaN = NaN"
| "Number_add Infinity NegInfinity = NaN"
| "Number_add NegInfinity Infinity = NaN"
| "Number_add Infinity y = Infinity"
| "Number_add x Infinity = Infinity"
| "Number_add NegInfinity y = NegInfinity"
| "Number_add x NegInfinity = NegInfinity"

definition Number_sub :: "Number \<Rightarrow> Number \<Rightarrow> Number" where
  "Number_sub x y = Number_add x (Number_negate y)"

fun signOf :: "Number \<Rightarrow> int" where
  "signOf (Num a) = sgn a"
| "signOf Infinity = 1"
| "signOf NegInfinity = - 1"
| "signOf NaN = 0"

fun Number_mul :: "Number \<Rightarrow> Number \<Rightarrow> Number" where
  "Number_mul (Num a) (Num b) = toDouble (a * b)"
| "Number_mul NaN y = NaN"
| "Number_mul x NaN = NaN"
| "Number_mul x y =
     (if signOf x * signOf y = 0 then NaN
      else if signOf x * signOf y < 0 then NegInfinity else Infinity)"

text \<open>
  \<^verbatim>\<open>Math.floor(x / 100.0)\<close>. For a whole \<open>m\<close> of at least 100, \<open>divide100 m\<close> is the double
  nearest to \<open>m / 100\<close> as a numerator over a power of two: the quotient has
  \<open>bitLength (m div 100)\<close> digits before the point, and the 53 digits of the significand
  end that many places further down. A quotient below 1 in magnitude has the floor 0 or -1.
\<close>

definition divide100 :: "nat \<Rightarrow> nat \<times> nat" where
  "divide100 m =
     (let d = m div 100
      in if d < 2 ^ 52 then
           (let s = 53 - bitLength d in (roundHalfEven (m * 2 ^ s) 100, 2 ^ s))
         else
           (let k = bitLength d - 53 in (roundHalfEven m (100 * 2 ^ k) * 2 ^ k, 1)))"

definition floorDivide100 :: "int \<Rightarrow> int" where
  "floorDivide100 i =
     (if \<bar>i\<bar> < 100 then (if i < 0 then - 1 else 0)
      else (let q = divide100 (nat \<bar>i\<bar>)
            in (if i < 0 then - int (fst q) else int (fst q)) div int (snd q)))"

fun Math_floor_divide100 :: "Number \<Rightarrow> Number" where
  "Math_floor_divide100 (Num a) = Num (floorDivide100 a)"
| "Math_floor_divide100 x = x"

text \<open>The comparisons \<^verbatim>\<open><\<close> and \<^verbatim>\<open><=\<close>; \<^verbatim>\<open>x > y\<close> is \<^verbatim>\<open>y < x\<close>. NaN compares false.\<close>

fun Number_less :: "Number \<Rightarrow> Number \<Rightarrow> bool" where
  "Number_less (Num a) (Num b) = (a < b)"
| "Number_less NaN y = False"
| "Number_less x NaN = False"
| "Number_less Infinity y = False"
| "Number_less x Infinity = True"
| "Number_less x NegInfinity = False"
| "Number_less NegInfinity y = True"

definition Number_lessEq :: "Number \<Rightarrow> Number \<Rightarrow> bool" where
  "Number_lessEq x y = (x \<noteq> NaN \<and> y \<noteq> NaN \<and> \<not> Number_less y x)"

definition Math_max :: "Number \<Rightarrow> Number \<Rightarrow> Number" where
  "Math_max x y = (if x = NaN \<or> y = NaN then NaN else if Number_less x y then y else x)"

fun isFinite :: "Number \<Rightarrow> bool" where
  "isFinite (Num a) = True"
| "isFinite x = False"

section \<open>Records of the game\<close>

record Stats =
  health :: Number
  intelligence :: Number
  strength :: Number
  agility :: Number

text \<open>An item carries the fields that the components read behind the type guards
  \<^verbatim>\<open>Weapon.isWeaponGun\<close> and \<^verbatim>\<open>Ingestible.itemIsIngestible\<close>.\<close>

record Item =
  name :: string
  range' :: Number
  damageAmount :: Number
  accuracy :: Number
  bullet :: string
  stats :: Stats
  curesPoisoning :: bool
  isPoisoned :: bool
  isAddictive :: bool
  givesImmortality :: bool
  addictionRelief :: int
  exhaustionRelief :: int
  hungerRelief :: int

record ItemStack =
  item :: Item
  stackAmount :: Number
  maxStackAmount :: Number

record Inventory =
  itemStacks :: "ItemStack list"

record Meter =
  isActive :: bool
  current :: int
  maximum :: int

record Effects =
  exhaustion :: Meter
  poison :: Meter
  addiction :: Meter
  immortality :: Meter
  hunger :: Meter

record Cell =
  row :: int
  col :: int
  representation :: string
  hasCamp :: bool
  items :: "ItemStack list"

type_synonym GameMap = "Cell list list"

text \<open>An animal is a character exactly when it carries a player id.\<close>

record Animal =
  row :: int
  col :: int
  stats :: Stats
  inventory :: Inventory
  playerId :: "string option"
  effects :: Effects
  map' :: "Cell list"

record Player =
  id' :: string
  name :: string
  character :: ref

record Message =
  content :: string
  to :: "Player list"
  type' :: string

record Game =
  players :: "Player list"
  map' :: GameMap
  heap :: "ref \<Rightarrow> Animal"
  rng :: nat

datatype ComponentKey = Move | Pass | Ingest | Rest | Attack | Pickup | Drop

record Action =
  actor :: ref
  timestamp :: int
  key :: ComponentKey

record MoveAction = Action +
  offsetRow :: int
  offsetCol :: int

record IngestAction = Action +
  itemName :: string

record AttackAction = Action +
  targetName :: string
  weaponName :: string
  times' :: Number

record ItemTransaction = Action +
  itemName :: string
  transactionAmount :: "Number option"

type_synonym PassAction = Action
type_synonym RestAction = Action

record ValidationResult =
  isValid :: bool
  error :: "string option"

record PerformResult =
  log :: "string list"
  messages :: "Message list"

section \<open>Collaborators\<close>

text \<open>
  The modules that \<^verbatim>\<open>actions.ts\<close> imports (inventory, items, weapons, map, cells, roster,
  helpers) are parameters of the model: every component takes the record of the
  functions it calls, and every result below holds for all of them. A lookup that can
  answer \<^verbatim>\<open>undefined\<close> returns an option; \<^verbatim>\<open>Inventory.removeFromInventory\<close> may throw
  and returns a sum; the other collaborators are queries that return. The three name
  tables are the constants that the patterns are built from. \<open>Number_toString\<close> is the
  text that JavaScript prints for a whole double of magnitude \<open>2 ^ 53\<close> or more.
\<close>

record Collaborators =
  isApproximateSubstring :: "string \<Rightarrow> string \<Rightarrow> bool"
  isPlaying :: "Game \<Rightarrow> Player \<Rightarrow> bool"
  Game_getPlayer :: "Game \<Rightarrow> string \<Rightarrow> Player option"
  Inventory_hasItem :: "Inventory \<Rightarrow> string \<Rightarrow> bool"
  Inventory_getItem :: "Inventory \<Rightarrow> string \<Rightarrow> ItemStack option"
  Inventory_inventoryIsFull :: "Inventory \<Rightarrow> bool"
  Inventory_removeFromInventory ::
    "Inventory \<Rightarrow> string \<Rightarrow> Number \<Rightarrow> Fault + (Inventory \<times> ItemStack)"
  Item_hasItem :: "ItemStack list \<Rightarrow> string \<Rightarrow> bool"
  Item_getItem :: "ItemStack list \<Rightarrow> string \<Rightarrow> ItemStack option"
  Item_stackIsFull :: "ItemStack \<Rightarrow> bool"
  Weapon_FIST :: Item
  Weapon_isWeaponGun :: "Item \<Rightarrow> bool"
  Weapon_stringIsAttackWeaponName :: "string \<Rightarrow> bool"
  Ingestible_itemIsIngestible :: "Item \<Rightarrow> bool"
  Stats_changeStats :: "Stats \<Rightarrow> Stats \<Rightarrow> Stats"
  Character_meterIsActive :: "Meter \<Rightarrow> bool"
  Character_updateMeterCurrentValue :: "Meter \<Rightarrow> int \<Rightarrow> int"
  Animal_isDead :: "Animal \<Rightarrow> bool"
  Map_isWithinMap :: "GameMap \<Rightarrow> Position \<Rightarrow> bool"
  Map_getCell :: "GameMap \<Rightarrow> Position \<Rightarrow> Cell"
  Cell_isRoom :: "Cell \<Rightarrow> bool"
  Cell_isBarrier :: "Cell \<Rightarrow> bool"
  Cell_cardinalPositionDistance :: "Cell \<Rightarrow> Cell \<Rightarrow> Number"
  Cell_getPositionsBetween :: "Position \<Rightarrow> Position \<Rightarrow> Position list"
  describeRoom :: "Cell \<Rightarrow> GameMap \<Rightarrow> string"
  reveal :: "Cell list \<Rightarrow> Cell \<Rightarrow> Cell list"
  rng_pickone :: "nat \<Rightarrow> bool \<times> nat"
  Weapon_namesForAttacking :: "string list"
  Ingestible_names :: "string list"
  itemNames :: "string list"
  Number_toString :: "int \<Rightarrow> string"

text \<open>Modelled from the spec: \<^verbatim>\<open>Character.isPlayerCharacter\<close>, the tag that tells a
  participant-controlled actor from any other one.\<close>

definition isPlayerCharacter :: "Animal \<Rightarrow> bool" where
  "isPlayerCharacter a = (playerId a \<noteq> None)"

text \<open>Modelled from the spec: \<^verbatim>\<open>Item.createItemStack\<close>, a quantity of one item kind with a
  maximum capacity.\<close>

definition createItemStack :: "Item \<Rightarrow> Number \<Rightarrow> Number \<Rightarrow> ItemStack" where
  "createItemStack i n m = \<lparr>item = i, stackAmount = n, maxStackAmount = m\<rparr>"

text \<open>Modelled from the spec: \<^verbatim>\<open>Messaging.createGameMessage\<close>, a message of kind Game
  with its content and recipients.\<close>

definition createGameMessage :: "string \<Rightarrow> Player list \<Rightarrow> Message" where
  "createGameMessage c ps = \<lparr>content = c, to = ps, type' = ''Game''\<rparr>"

definition position :: "Animal \<Rightarrow> Position" where
  "position a = (Animal.row a, Animal.col a)"

text \<open>
  A template literal prints a number with \<^verbatim>\<open>ToString\<close>: a whole number below \<open>2 ^ 53\<close> in
  magnitude in decimal, the infinities and NaN by their names, and any other whole double
  as \<open>Number_toString\<close> says.
\<close>

function showNat :: "nat \<Rightarrow> string" where
  "showNat n =
     (if n < 10 then [''0123456789'' ! n] else showNat (n div 10) @ [''0123456789'' ! (n mod 10)])"
  by pat_completeness auto
termination
  by (relation "measure (\<lambda>n. n)") auto

declare showNat.simps [simp del]

definition showInt :: "int \<Rightarrow> string" where
  "showInt i = (if i < 0 then CHR ''-'' # showNat (nat (- i)) else showNat (nat i))"

fun showNum :: "Collaborators \<Rightarrow> Number \<Rightarrow> string" where
  "showNum C (Num i) = (if \<bar>i\<bar> < 2 ^ 53 then showInt i else Number_toString C i)"
| "showNum C Infinity = ''Infinity''"
| "showNum C NegInfinity = ''-Infinity''"
| "showNum C NaN = ''NaN''"

section \<open>The Attack component\<close>

text \<open>The target of an attack: the first player of the roster who is playing and whose
  name the fragment approximately matches (\<^verbatim>\<open>_.find\<close>).\<close>

definition findTarget :: "Collaborators \<Rightarrow> Game \<Rightarrow> string \<Rightarrow> Player option" where
  "findTarget C game fragment =
     find (\<lambda>player. isPlaying C game player \<and> isApproximateSubstring C fragment (name player))
       (players game)"

text \<open>The weapon stack: the innate fist, or what the inventory answers for the name.\<close>

definition attackWeaponStack :: "Collaborators \<Rightarrow> Inventory \<Rightarrow> string \<Rightarrow> ItemStack option" where
  "attackWeaponStack C inventory' wname =
     (if wname = ''Fist'' then Some (createItemStack (Weapon_FIST C) (Num 1) (Num 1))
      else Inventory_getItem C inventory' wname)"

definition accuracyPercentage :: "Collaborators \<Rightarrow> Item \<Rightarrow> Number" where
  "accuracyPercentage C w = (if Weapon_isWeaponGun C w then accuracy w else Num 100)"

text \<open>Line 430: \<^verbatim>\<open>Math.floor(attackAction.times * accuracyPercentage / 100.0)\<close>.\<close>

definition actualTimesAttacked :: "Collaborators \<Rightarrow> Item \<Rightarrow> Number \<Rightarrow> Number" where
  "actualTimesAttacked C w n = Math_floor_divide100 (Number_mul n (accuracyPercentage C w))"

definition setHealth :: "ref \<Rightarrow> Number \<Rightarrow> Game \<Rightarrow> Game" where
  "setHealth r h game =
     game\<lparr>heap := (heap game)(r := (heap game r)\<lparr>Animal.stats := (Animal.stats (heap game r))\<lparr>health := h\<rparr>\<rparr>)\<rparr>"

text \<open>Lines 500 to 510 of \<^verbatim>\<open>perform\<close>: the attacker pays with bullets or with stamina.\<close>

definition attackCost :: "Collaborators \<Rightarrow> AttackAction \<Rightarrow> ItemStack \<Rightarrow> Game \<Rightarrow> Game \<times> Fault option" where
  "attackCost C attackAction weaponStack game =
     (let a = heap game (actor attackAction) in
      if Weapon_isWeaponGun C (item weaponStack) then
        (case Inventory_removeFromInventory C (inventory a) (bullet (item weaponStack))
                (times' attackAction) of
           Inl e \<Rightarrow> (game, Some e)
         | Inr (newInventory, _) \<Rightarrow>
             (game\<lparr>heap := (heap game)(actor attackAction := a\<lparr>inventory := newInventory\<rparr>)\<rparr>, None))
      else
        (game\<lparr>heap := (heap game)(actor attackAction :=
           a\<lparr>Animal.stats := (Animal.stats a)\<lparr>
              strength := Number_sub (strength (Animal.stats a))
                (actualTimesAttacked C (item weaponStack) (times' attackAction)),
              agility := Number_sub (agility (Animal.stats a)) (times' attackAction)\<rparr>\<rparr>)\<rparr>, None))"

text \<open>Lines 444 to 498: the notices, once the damage is done. The actor's player is
  looked up anew at each of the three places that address the attacker.\<close>

definition attackNotices ::
  "Collaborators \<Rightarrow> AttackAction \<Rightarrow> ItemStack \<Rightarrow> Player \<Rightarrow> Game \<Rightarrow> Fault + Message list" where
  "attackNotices C attackAction weaponStack targetPlayer game =
     (let a = heap game (actor attackAction);
          n = actualTimesAttacked C (item weaponStack) (times' attackAction);
          totalDamage = Number_mul n (damageAmount (item weaponStack))
      in
      case (if isPlayerCharacter a then
              (case Game_getPlayer C game (the (playerId a)) of
                 None \<Rightarrow> Inl (Error ''Expected AttackAction actor to exist!'')
               | Some actorPlayer \<Rightarrow>
                   Inr [createGameMessage
                     (''You attacked '' @ name targetPlayer @ '' '' @ showNum C n
                        @ '' time(s) for a total of '' @ showNum C totalDamage @ '' damage!'')
                     [actorPlayer]])
            else Inr []) of
        Inl e \<Rightarrow> Inl e
      | Inr m1 \<Rightarrow>
         (case (if isPlayerCharacter a then
                  (case Game_getPlayer C game (the (playerId a)) of
                     None \<Rightarrow> Inl (Error ''Expected AttackAction actor to exist!'')
                   | Some actorPlayer \<Rightarrow> Inr (name actorPlayer))
                else Inl (Error ''Expected attacker to be a player!'')) of
            Inl e \<Rightarrow> Inl e
          | Inr attackerName \<Rightarrow>
             (let m2 = m1 @ [createGameMessage
                    (attackerName @ '' attacked you for '' @ showNum C totalDamage @ '' damage!'')
                    [targetPlayer]]
              in
              if Animal_isDead C (heap game (character targetPlayer)) then
                (case (if isPlayerCharacter a then
                         (case Game_getPlayer C game (the (playerId a)) of
                            None \<Rightarrow> Inl (Error ''Expected AttackAction actor to exist!'')
                          | Some actorPlayer \<Rightarrow>
                              Inr [createGameMessage
                                (''You killed '' @ name targetPlayer @ ''!'') [actorPlayer]])
                       else Inr []) of
                   Inl e \<Rightarrow> Inl e
                 | Inr m3 \<Rightarrow>
                     Inr (m2 @ m3 @ [createGameMessage
                       (''You were killed by '' @ attackerName) [targetPlayer]]))
              else Inr m2)))"

definition ATTACK_perform ::
  "Collaborators \<Rightarrow> AttackAction \<Rightarrow> Game \<Rightarrow> string list \<Rightarrow> Game \<times> (Fault + PerformResult)" where
  "ATTACK_perform C attackAction game lg =
     (if \<not> Weapon_stringIsAttackWeaponName C (weaponName attackAction) then
        (game, Inl (Error ''Expected `weaponName` to be an attack weapon name!''))
      else
        case attackWeaponStack C (inventory (heap game (actor attackAction)))
               (weaponName attackAction) of
          None \<Rightarrow> (game, Inl TypeError)
        | Some weaponStack \<Rightarrow>
           (case findTarget C game (targetName attackAction) of
              None \<Rightarrow>
                (game, Inl (Error (''Expected target player '' @ [CHR 0x22]
                   @ targetName attackAction @ [CHR 0x22] @ '' to exist!'')))
            | Some targetPlayer \<Rightarrow>
               (let totalDamage =
                      Number_mul (actualTimesAttacked C (item weaponStack) (times' attackAction))
                        (damageAmount (item weaponStack));
                    t = character targetPlayer;
                    game1 = setHealth t
                      (Math_max (Num 0) (Number_sub (health (Animal.stats (heap game t))) totalDamage))
                      game
                in
                case attackNotices C attackAction weaponStack targetPlayer game1 of
                  Inl e \<Rightarrow> (game1, Inl e)
                | Inr ms \<Rightarrow>
                   (case attackCost C attackAction weaponStack game1 of
                      (game2, Some e) \<Rightarrow> (game2, Inl e)
                    | (game2, None) \<Rightarrow> (game2, Inr \<lparr>log = lg, messages = ms\<rparr>)))))"

text \<open>\<^verbatim>\<open>validate\<close>, lines 301 to 401. A weapon stack that the inventory does not hold is
  \<^verbatim>\<open>undefined\<close>, and reading its item is a TypeError.\<close>

definition ATTACK_validate ::
  "Collaborators \<Rightarrow> AttackAction \<Rightarrow> Game \<Rightarrow> Fault + ValidationResult" where
  "ATTACK_validate C attackAction game =
     (let a = heap game (actor attackAction);
          inventory' = inventory a
      in
      if weaponName attackAction \<noteq> ''Fist''
         \<and> \<not> Inventory_hasItem C inventory' (weaponName attackAction) then
        Inr \<lparr>isValid = False,
             error = Some (''Missing '' @ weaponName attackAction @ '' in inventory!'')\<rparr>
      else if \<not> isFinite (times' attackAction)
              \<or> Number_lessEq (times' attackAction) (Num 0) then
        Inr \<lparr>isValid = False,
             error = Some (''Bad number of times attacking ('' @ showNum C (times' attackAction) @ '')!'')\<rparr>
      else
        case findTarget C game (targetName attackAction) of
          None \<Rightarrow>
            Inr \<lparr>isValid = False,
                 error = Some (''No player with name '' @ [CHR 0x27] @ targetName attackAction
                   @ [CHR 0x27] @ ''!'')\<rparr>
        | Some targetPlayer \<Rightarrow>
           (case attackWeaponStack C inventory' (weaponName attackAction) of
              None \<Rightarrow> Inl TypeError
            | Some weaponStack \<Rightarrow>
               (let t = heap game (character targetPlayer);
                    actualDistance = Cell_cardinalPositionDistance C
                      (Map_getCell C (Game.map' game) (position a))
                      (Map_getCell C (Game.map' game) (position t))
                in
                if Number_less (range' (item weaponStack)) actualDistance then
                  Inr \<lparr>isValid = False,
                       error = Some (name targetPlayer @ '' is out of '' @ Item.name (item weaponStack)
                         @ [CHR 0x27] @ ''s attack range!'')\<rparr>
                else if \<not> (Animal.row t = Animal.row a \<or> Animal.col t = Animal.col a) then
                  Inr \<lparr>isValid = False, error = Some ''You can only shoot in straight lines!''\<rparr>
                else if list_ex (Cell_isBarrier C)
                     (map (Map_getCell C (Game.map' game))
                        (Cell_getPositionsBetween C (position t) (position a))) then
                  Inr \<lparr>isValid = False, error = Some ''Your shot is obstructed by a barrier!''\<rparr>
                else if Weapon_isWeaponGun C (item weaponStack) then
                  (if Inventory_hasItem C inventory' (bullet (item weaponStack)) then
                     (case Inventory_getItem C inventory' (bullet (item weaponStack)) of
                        None \<Rightarrow> Inl TypeError
                      | Some bulletStack \<Rightarrow>
                          if Number_less (stackAmount bulletStack) (times' attackAction) then
                            Inr \<lparr>isValid = False,
                                 error = Some (''You cannot shoot '' @ showNum C (times' attackAction)
                                   @ '' time(s) because you only have ''
                                   @ showNum C (stackAmount bulletStack) @ '' bullet(s)!'')\<rparr>
                          else Inr \<lparr>isValid = True, error = None\<rparr>)
                   else
                     Inr \<lparr>isValid = False,
                          error = Some (''You don'' @ [CHR 0x27] @ ''t have '' @ bullet (item weaponStack)
                            @ ''s for your '' @ Item.name (item weaponStack) @ ''!'')\<rparr>)
                else Inr \<lparr>isValid = True, error = None\<rparr>)))"

section \<open>The Move component\<close>

text \<open>Modelled from the spec: \<^verbatim>\<open>moveEntity\<close>, which relocates the actor.\<close>

definition moveEntity :: "Animal \<Rightarrow> Position \<Rightarrow> Animal" where
  "moveEntity a p = a\<lparr>Animal.row := fst p, Animal.col := snd p\<rparr>"

definition JSON_stringify :: "Collaborators \<Rightarrow> Position \<Rightarrow> string" where
  "JSON_stringify C p =
     ''{'' @ [CHR 0x22] @ ''row'' @ [CHR 0x22] @ '':'' @ showNum C (Num (fst p)) @ '',''
       @ [CHR 0x22] @ ''col'' @ [CHR 0x22] @ '':'' @ showNum C (Num (snd p)) @ ''}''"

definition MOVE_validate ::
  "Collaborators \<Rightarrow> MoveAction \<Rightarrow> Game \<Rightarrow> Fault + ValidationResult" where
  "MOVE_validate C move game =
     (let a = heap game (actor move);
          newR = Animal.row a + offsetRow move;
          newC = Animal.col a + offsetCol move;
          newPos = (newR, newC)
      in
      if \<not> Map_isWithinMap C (Game.map' game) newPos then
        Inr \<lparr>isValid = False, error = Some ''Out of bounds movement!''\<rparr>
      else if \<not> Cell_isRoom C (Map_getCell C (Game.map' game) newPos) then
        Inr \<lparr>isValid = False, error = Some ''Desired location is not a room!''\<rparr>
      else Inr \<lparr>isValid = True, error = None\<rparr>)"

definition MOVE_perform ::
  "Collaborators \<Rightarrow> MoveAction \<Rightarrow> Game \<Rightarrow> string list \<Rightarrow> Game \<times> (Fault + PerformResult)" where
  "MOVE_perform C move game lg =
     (let a = heap game (actor move);
          oldPos = (Animal.row a, Animal.col a);
          newPos = (fst oldPos + offsetRow move, snd oldPos + offsetCol move);
          game1 = game\<lparr>heap := (heap game)(actor move := moveEntity a newPos)\<rparr>;
          a1 = heap game1 (actor move)
      in
      if isPlayerCharacter a1 then
        (case Game_getPlayer C game1 (the (playerId a1)) of
           None \<Rightarrow>
             (game1, Inl (Error (''Tried to move a non-present player! Id: '' @ the (playerId a1))))
         | Some player \<Rightarrow>
            (let lg1 = lg @ [name player @ '' from '' @ JSON_stringify C oldPos @ '' to ''
                          @ JSON_stringify C newPos];
                 newRoom = Map_getCell C (Game.map' game1) newPos;
                 ms = [createGameMessage ''You moved!'' [player],
                       createGameMessage (describeRoom C newRoom (Game.map' game1)) [player]];
                 pc = heap game1 (character player);
                 game2 = (if Inventory_hasItem C (inventory pc) ''Map'' then
                            game1\<lparr>heap := (heap game1)(character player :=
                              pc\<lparr>Animal.map' := reveal C (Animal.map' pc) newRoom\<rparr>)\<rparr>
                          else game1)
             in (game2, Inr \<lparr>log = lg1, messages = ms\<rparr>)))
      else (game1, Inr \<lparr>log = lg, messages = []\<rparr>))"

section \<open>The Pass and Rest components\<close>

text \<open>\<^verbatim>\<open>Boolean(passAction)\<close> is true of every object.\<close>

definition PASS_validate :: "PassAction \<Rightarrow> Game \<Rightarrow> Fault + ValidationResult" where
  "PASS_validate passAction game = Inr \<lparr>isValid = True, error = None\<rparr>"

definition PASS_perform ::
  "Collaborators \<Rightarrow> PassAction \<Rightarrow> Game \<Rightarrow> string list \<Rightarrow> Game \<times> (Fault + PerformResult)" where
  "PASS_perform C passAction game lg =
     (let a = heap game (actor passAction) in
      if isPlayerCharacter a then
        (case Game_getPlayer C game (the (playerId a)) of
           Some player \<Rightarrow>
             (game, Inr \<lparr>log = lg,
                messages = [createGameMessage ''You performed no action.'' [player]]\<rparr>)
         | None \<Rightarrow>
             (game, Inl (Error (''A non-present player tried to perform a pass action! Id: ''
                @ the (playerId a)))))
      else (game, Inr \<lparr>log = lg, messages = []\<rparr>))"

definition REST_validate ::
  "Collaborators \<Rightarrow> RestAction \<Rightarrow> Game \<Rightarrow> Fault + ValidationResult" where
  "REST_validate C restAction game =
     (let a = heap game (actor restAction) in
      if isPlayerCharacter a then
        (let currCell = Map_getCell C (Game.map' game) (position a) in
         if Cell_isRoom C currCell then
           (if hasCamp currCell then Inr \<lparr>isValid = True, error = None\<rparr>
            else Inr \<lparr>isValid = False, error = Some ''Cannot rest without camp setup!''\<rparr>)
         else Inl (Error ''Expected player to be in room!''))
      else Inr \<lparr>isValid = True, error = None\<rparr>)"

definition REST_perform ::
  "Collaborators \<Rightarrow> RestAction \<Rightarrow> Game \<Rightarrow> string list \<Rightarrow> Game \<times> (Fault + PerformResult)" where
  "REST_perform C restAction game lg =
     (let a = heap game (actor restAction) in
      if isPlayerCharacter a then
        (let wasExhausted = Character_meterIsActive C (exhaustion (effects a));
             game1 = game\<lparr>heap := (heap game)(actor restAction :=
               a\<lparr>effects := (effects a)\<lparr>exhaustion :=
                  (exhaustion (effects a))\<lparr>current := maximum (exhaustion (effects a))\<rparr>\<rparr>\<rparr>)\<rparr>
         in
         case Game_getPlayer C game1 (the (playerId a)) of
           None \<Rightarrow>
             (game1, Inl (Error (''Tried to perform a RestAction with a non-present player! Id: ''
                @ the (playerId a))))
         | Some player \<Rightarrow>
             if wasExhausted then
               (game1, Inr \<lparr>log = lg, messages = [createGameMessage
                  ''You rested at the camp and no longer feel exhausted.'' [player]]\<rparr>)
             else
               (game1, Inr \<lparr>log = lg, messages = [createGameMessage
                  ''You rested at the camp.'' [player]]\<rparr>))
      else (game, Inr \<lparr>log = lg, messages = []\<rparr>))"

section \<open>The Ingest component\<close>

definition INGEST_validate ::
  "Collaborators \<Rightarrow> IngestAction \<Rightarrow> Game \<Rightarrow> Fault + ValidationResult" where
  "INGEST_validate C ingestAction game =
     (let inventory' = inventory (heap game (actor ingestAction)) in
      if Inventory_hasItem C inventory' (IngestAction.itemName ingestAction) then
        Inr \<lparr>isValid = True, error = None\<rparr>
      else
        Inr \<lparr>isValid = False,
             error = Some (''Missing '' @ IngestAction.itemName ingestAction @ '' in inventory!'')\<rparr>)"

text \<open>Lines 581 to 629: what an ingested item does to the effects of a character. The
  result is the character, the random generator, the messages and the log entries.\<close>

definition ingestEffects ::
  "Collaborators \<Rightarrow> Item \<Rightarrow> Player \<Rightarrow> Animal \<Rightarrow> nat \<Rightarrow> Animal \<times> nat \<times> Message list \<times> string list" where
  "ingestEffects C i player a0 rng0 =
     (let cured = (curesPoisoning i \<and> isActive (poison (effects a0)));
          a1 = (if cured then
                  a0\<lparr>effects := (effects a0)\<lparr>poison := (poison (effects a0))\<lparr>isActive := False\<rparr>\<rparr>\<rparr>
                else a0);
          m1 = (if cured then [createGameMessage ''You have been cured of poisoning!'' [player]]
                else []);
          l1 = (if cured then [name player @ '' poison removed''] else []);
          a2 = (if isPoisoned i then
                  a1\<lparr>effects := (effects a1)\<lparr>poison := (poison (effects a1))\<lparr>isActive := True\<rparr>\<rparr>\<rparr>
                else a1);
          m2 = (if isPoisoned i then m1 @ [createGameMessage ''You have been poisoned!'' [player]]
                else m1);
          l2 = (if isPoisoned i then l1 @ [name player @ '' was poisoned''] else l1);
          pick = (if isAddictive i then rng_pickone C rng0 else (False, rng0));
          characterBecomesAddicted = fst pick;
          a3 = (if characterBecomesAddicted then
                  a2\<lparr>effects := (effects a2)\<lparr>addiction := (addiction (effects a2))\<lparr>isActive := True\<rparr>\<rparr>\<rparr>
                else a2);
          m3 = (if characterBecomesAddicted then
                  m2 @ [createGameMessage ''You have become addicted!'' [player]]
                else m2);
          l3 = (if characterBecomesAddicted then l2 @ [name player @ '' became addicted'']
                else l2);
          a4 = (if givesImmortality i then
                  a3\<lparr>effects := (effects a3)\<lparr>immortality :=
                     (immortality (effects a3))\<lparr>isActive := True\<rparr>\<rparr>\<rparr>
                else a3);
          a5 = a4\<lparr>effects := (effects a4)\<lparr>addiction := (addiction (effects a4))\<lparr>current :=
                 Character_updateMeterCurrentValue C (addiction (effects a4)) (addictionRelief i)\<rparr>\<rparr>\<rparr>;
          a6 = a5\<lparr>effects := (effects a5)\<lparr>exhaustion := (exhaustion (effects a5))\<lparr>current :=
                 Character_updateMeterCurrentValue C (exhaustion (effects a5)) (exhaustionRelief i)\<rparr>\<rparr>\<rparr>;
          a7 = a6\<lparr>effects := (effects a6)\<lparr>hunger := (hunger (effects a6))\<lparr>current :=
                 Character_updateMeterCurrentValue C (hunger (effects a6)) (hungerRelief i)\<rparr>\<rparr>\<rparr>
      in (a7, snd pick, m3, l3))"

definition INGEST_perform ::
  "Collaborators \<Rightarrow> IngestAction \<Rightarrow> Game \<Rightarrow> string list \<Rightarrow> Game \<times> (Fault + PerformResult)" where
  "INGEST_perform C ingestAction game lg =
     (let r = actor ingestAction;
          a = heap game r
      in
      case Inventory_removeFromInventory C (inventory a) (IngestAction.itemName ingestAction)
             (Num 1) of
        Inl e \<Rightarrow> (game, Inl e)
      | Inr (newInventory, itemStack) \<Rightarrow>
         (let a1 = a\<lparr>inventory := newInventory\<rparr>;
              game1 = game\<lparr>heap := (heap game)(r := a1)\<rparr>;
              i = item itemStack
          in
          if Ingestible_itemIsIngestible C i then
            (let a2 = a1\<lparr>Animal.stats := Stats_changeStats C (Animal.stats a1) (Item.stats i)\<rparr>;
                 game2 = game1\<lparr>heap := (heap game1)(r := a2)\<rparr>
             in
             if isPlayerCharacter a2 then
               (case Game_getPlayer C game2 (the (playerId a2)) of
                  None \<Rightarrow>
                    (game2, Inl (Error
                       (''Tried to perform an IngestAction with a non-present player! Id: ''
                          @ the (playerId a2))))
                | Some player \<Rightarrow>
                    (case ingestEffects C i player a2 (rng game2) of
                       (a3, rng3, ms, ls) \<Rightarrow>
                         (game2\<lparr>heap := (heap game2)(r := a3), rng := rng3\<rparr>,
                          Inr \<lparr>log = lg @ ls, messages = ms\<rparr>)))
             else (game2, Inr \<lparr>log = lg, messages = []\<rparr>))
          else
            (game1, Inl (Error (''Tried to ingest an item that is not ingestible: '' @ [CHR 0x27]
               @ Item.name i @ [CHR 0x27])))))"

section \<open>Validation of the Pickup component\<close>

text \<open>\<^verbatim>\<open>validate\<close>, lines 677 to 747. The stacks read behind a \<^verbatim>\<open>!\<close> are TypeErrors
  when the lookup answers \<^verbatim>\<open>undefined\<close>.\<close>

definition PICKUP_validate ::
  "Collaborators \<Rightarrow> ItemTransaction \<Rightarrow> Game \<Rightarrow> Fault + ValidationResult" where
  "PICKUP_validate C pickupAction game =
     (let a = heap game (actor pickupAction);
          cell = Map_getCell C (Game.map' game) (position a);
          wanted = ItemTransaction.itemName pickupAction
      in
      if \<not> Cell_isRoom C cell then Inl (Error ''Actor is not in a room!'')
      else if \<not> Item_hasItem C (items cell) wanted then
        Inr \<lparr>isValid = False, error = Some (wanted @ '' is not in the room!'')\<rparr>
      else
        (let stackToPickUp = Item_getItem C (items cell) wanted in
         case (case transactionAmount pickupAction of
                 Some amount \<Rightarrow>
                   if isFinite amount then
                     (if Number_less amount (Num 1) then
                        Inr (Inl \<lparr>isValid = False,
                                  error = Some ''Transaction amount must be positive!''\<rparr>)
                      else Inr (Inr amount))
                   else Inl (Error ''Transaction amount exists but is not finite!'')
               | None \<Rightarrow>
                   (case stackToPickUp of
                      None \<Rightarrow> Inl TypeError
                    | Some st \<Rightarrow> Inr (Inr (stackAmount st)))) of
           Inl e \<Rightarrow> Inl e
         | Inr (Inl rejected) \<Rightarrow> Inr rejected
         | Inr (Inr amountToPickUp) \<Rightarrow>
            (case stackToPickUp of
               None \<Rightarrow> Inl TypeError
             | Some st \<Rightarrow>
                if Number_less (stackAmount st) amountToPickUp then
                  Inr \<lparr>isValid = False,
                       error = Some (''There is only '' @ showNum C (stackAmount st) @ '' ''
                         @ Item.name (item st) @ ''(s) in the room!'')\<rparr>
                else if Inventory_inventoryIsFull C (inventory a) then
                  (if Inventory_hasItem C (inventory a) wanted then
                     (case Inventory_getItem C (inventory a) wanted of
                        None \<Rightarrow> Inl TypeError
                      | Some playerStack \<Rightarrow>
                          if Item_stackIsFull C playerStack then
                            Inr \<lparr>isValid = False,
                                 error = Some (''Your current stack of '' @ wanted @ '' is full!'')\<rparr>
                          else if Number_less (maxStackAmount playerStack)
                                    (Number_add (stackAmount playerStack) amountToPickUp) then
                            Inr \<lparr>isValid = False,
                                 error = Some (''You can only hold ''
                                   @ showNum C (maxStackAmount playerStack) @ '' ''
                                   @ Item.name (item playerStack) @ ''(s)!'')\<rparr>
                          else Inr \<lparr>isValid = True, error = None\<rparr>)
                   else Inr \<lparr>isValid = False, error = Some ''You inventory is full!''\<rparr>)
                else Inr \<lparr>isValid = True, error = None\<rparr>)))"

section \<open>Recognition patterns\<close>

text \<open>
  The patterns are regular expressions over the characters of the command text, all
  with the flag \<^verbatim>\<open>i\<close>: a literal character matches in either case. A pattern written
  with \<^verbatim>\<open>^\<close> and \<^verbatim>\<open>$\<close> has to match the whole text; \<open>search\<close> is a pattern without
  them. \<^verbatim>\<open>pattern.test\<close> is decided with derivatives. The names joined into a pattern are
  plain words. Only the letters A to Z have two cases here, as under the flag \<^verbatim>\<open>i\<close>
  without the flag \<^verbatim>\<open>u\<close>. A text is a sequence of code units below 256, of which
  \<^verbatim>\<open>\s\<close> matches the six ASCII ones and the no-break space.
\<close>

datatype RegExp =
  Never | Eps | Chr char | WordChar | Digit | Space | AnyChar
  | Alt RegExp RegExp | Seq RegExp RegExp | Star RegExp

definition toLowerCaseChar :: "char \<Rightarrow> char" where
  "toLowerCaseChar c =
     (case map_of (zip ''ABCDEFGHIJKLMNOPQRSTUVWXYZ'' ''abcdefghijklmnopqrstuvwxyz'') c of
        Some l \<Rightarrow> l
      | None \<Rightarrow> c)"

definition toLowerCase :: "string \<Rightarrow> string" where
  "toLowerCase text = map toLowerCaseChar text"

definition isWordChar :: "char \<Rightarrow> bool" where
  "isWordChar c =
     (c \<in> set ''ABCDEFGHIJKLMNOPQRSTUVWXYZabcdefghijklmnopqrstuvwxyz0123456789_'')"

definition isDigit :: "char \<Rightarrow> bool" where
  "isDigit c = (c \<in> set ''0123456789'')"

definition isSpace :: "char \<Rightarrow> bool" where
  "isSpace c =
     (c \<in> set [CHR '' '', CHR 0x09, CHR 0x0A, CHR 0x0B, CHR 0x0C, CHR 0x0D, CHR 0xA0])"

fun nullable :: "RegExp \<Rightarrow> bool" where
  "nullable Never = False"
| "nullable Eps = True"
| "nullable (Chr c) = False"
| "nullable WordChar = False"
| "nullable Digit = False"
| "nullable Space = False"
| "nullable AnyChar = False"
| "nullable (Alt r s) = (nullable r \<or> nullable s)"
| "nullable (Seq r s) = (nullable r \<and> nullable s)"
| "nullable (Star r) = True"

fun deriv :: "char \<Rightarrow> RegExp \<Rightarrow> RegExp" where
  "deriv x Never = Never"
| "deriv x Eps = Never"
| "deriv x (Chr c) = (if toLowerCaseChar x = toLowerCaseChar c then Eps else Never)"
| "deriv x WordChar = (if isWordChar x then Eps else Never)"
| "deriv x Digit = (if isDigit x then Eps else Never)"
| "deriv x Space = (if isSpace x then Eps else Never)"
| "deriv x AnyChar = Eps"
| "deriv x (Alt r s) = Alt (deriv x r) (deriv x s)"
| "deriv x (Seq r s) =
     (if nullable r then Alt (Seq (deriv x r) s) (deriv x s) else Seq (deriv x r) s)"
| "deriv x (Star r) = Seq (deriv x r) (Star r)"

definition test :: "RegExp \<Rightarrow> string \<Rightarrow> bool" where
  "test r text = nullable (foldl (\<lambda>r x. deriv x r) r text)"

text \<open>The language of a pattern: the texts that it matches as a whole.\<close>

definition conc :: "string set \<Rightarrow> string set \<Rightarrow> string set" where
  "conc A B = {u @ v | u v. u \<in> A \<and> v \<in> B}"

inductive_set star :: "string set \<Rightarrow> string set" for A :: "string set" where
  nil: "[] \<in> star A"
| step: "u \<in> A \<Longrightarrow> v \<in> star A \<Longrightarrow> u @ v \<in> star A"

fun lang :: "RegExp \<Rightarrow> string set" where
  "lang Never = {}"
| "lang Eps = {[]}"
| "lang (Chr c) = {[x] | x. toLowerCaseChar x = toLowerCaseChar c}"
| "lang WordChar = {[x] | x. isWordChar x}"
| "lang Digit = {[x] | x. isDigit x}"
| "lang Space = {[x] | x. isSpace x}"
| "lang AnyChar = {[x] | x. True}"
| "lang (Alt r s) = lang r \<union> lang s"
| "lang (Seq r s) = conc (lang r) (lang s)"
| "lang (Star r) = star (lang r)"

fun lit :: "string \<Rightarrow> RegExp" where
  "lit [] = Eps"
| "lit (c # cs) = Seq (Chr c) (lit cs)"

text \<open>\<^verbatim>\<open>names.join('|')\<close> inside a group.\<close>

fun alts :: "string list \<Rightarrow> RegExp" where
  "alts [] = Eps"
| "alts [n] = lit n"
| "alts (n # ns) = Alt (lit n) (alts ns)"

definition plus' :: "RegExp \<Rightarrow> RegExp" where
  "plus' r = Seq r (Star r)"

definition opt :: "RegExp \<Rightarrow> RegExp" where
  "opt r = Alt r Eps"

definition search :: "RegExp \<Rightarrow> RegExp" where
  "search r = Seq (Star AnyChar) (Seq r (Star AnyChar))"

datatype Component =
  MOVE_COMPONENT | PASS_COMPONENT | REST_COMPONENT | INGEST_COMPONENT | ATTACK_COMPONENT
  | PICKUP_ACTION | DROP_ACTION

fun pattern :: "Collaborators \<Rightarrow> Component \<Rightarrow> RegExp" where
  "pattern C MOVE_COMPONENT = Seq (lit ''go '') (alts [''north'', ''south'', ''east'', ''west''])"
| "pattern C PASS_COMPONENT = lit ''pass''"
| "pattern C REST_COMPONENT = lit ''rest''"
| "pattern C ATTACK_COMPONENT =
     Seq (lit ''attack '') (Seq (plus' WordChar) (Seq (lit '' '')
       (Seq (alts (Weapon_namesForAttacking C)) (Seq (lit '' '') (plus' Digit)))))"
| "pattern C INGEST_COMPONENT =
     Seq (alts [''eat'', ''consume'', ''ingest'', ''use'', ''drink'', ''quaff''])
       (Seq (lit '' '') (alts (Ingestible_names C)))"
| "pattern C PICKUP_ACTION =
     Seq (alts [''pick up'', ''get'', ''grab''])
       (Seq (opt (Seq (plus' Space) (plus' Digit))) (Seq (plus' Space) (alts (itemNames C))))"
| "pattern C DROP_ACTION =
     search (Seq (lit ''drop'')
       (Seq (opt (Seq (plus' Space) (plus' Digit))) (Seq (plus' Space) (alts (itemNames C)))))"

fun componentKey :: "Component \<Rightarrow> ComponentKey" where
  "componentKey MOVE_COMPONENT = Move"
| "componentKey PASS_COMPONENT = Pass"
| "componentKey REST_COMPONENT = Rest"
| "componentKey INGEST_COMPONENT = Ingest"
| "componentKey ATTACK_COMPONENT = Attack"
| "componentKey PICKUP_ACTION = Pickup"
| "componentKey DROP_ACTION = Drop"

text \<open>\<^verbatim>\<open>parse\<close> of the Move component. The pattern is anchored and its group follows the
  three characters that \<^verbatim>\<open>go \<close> matches, so \<^verbatim>\<open>matches[1]\<close> is the rest of the text.\<close>

definition MOVE_parse :: "Collaborators \<Rightarrow> string \<Rightarrow> ref \<Rightarrow> int \<Rightarrow> Fault + MoveAction" where
  "MOVE_parse C text actor' timestamp' =
     (if \<not> test (pattern C MOVE_COMPONENT) text then
        Inl (Error (''Unable to parse MoveAction: '' @ text))
      else
        (let dir = toLowerCase (drop 3 text);
             ret = \<lparr>actor = actor', timestamp = timestamp', key = Move,
                    offsetRow = 0, offsetCol = 0\<rparr>
         in
         if dir = ''north'' then Inr (ret\<lparr>offsetRow := - 1\<rparr>)
         else if dir = ''south'' then Inr (ret\<lparr>offsetRow := 1\<rparr>)
         else if dir = ''west'' then Inr (ret\<lparr>offsetCol := - 1\<rparr>)
         else if dir = ''east'' then Inr (ret\<lparr>offsetCol := 1\<rparr>)
         else Inl (Error (''Unknown direction: '' @ dir))))"

section \<open>The registry\<close>

text \<open>\<^verbatim>\<open>PARSERS\<close> is an object literal: its keys are enumerated in the order in which they
  are written, which is the order in which \<^verbatim>\<open>_.find\<close> visits the components.\<close>

definition PARSERS :: "(ComponentKey \<times> Component) list" where
  "PARSERS =
     [(Move, MOVE_COMPONENT), (Pass, PASS_COMPONENT), (Rest, REST_COMPONENT),
      (Ingest, INGEST_COMPONENT), (Attack, ATTACK_COMPONENT), (Pickup, PICKUP_ACTION),
      (Drop, DROP_ACTION)]"

text \<open>The order in which \<^verbatim>\<open>PARSERS\<close> declares the components.\<close>

definition declaredOrder :: "Component list" where
  "declaredOrder =
     [MOVE_COMPONENT, PASS_COMPONENT, REST_COMPONENT, INGEST_COMPONENT, ATTACK_COMPONENT,
      PICKUP_ACTION, DROP_ACTION]"

definition getComponentByText :: "Collaborators \<Rightarrow> string \<Rightarrow> Component option" where
  "getComponentByText C text =
     map_option snd (find (\<lambda>(k, comp). test (pattern C comp) text) PARSERS)"

definition showKey :: "ComponentKey \<Rightarrow> string" where
  "showKey k =
     (case k of Move \<Rightarrow> ''Move'' | Pass \<Rightarrow> ''Pass'' | Ingest \<Rightarrow> ''Ingest'' | Rest \<Rightarrow> ''Rest''
      | Attack \<Rightarrow> ''Attack'' | Pickup \<Rightarrow> ''Pickup'' | Drop \<Rightarrow> ''Drop'')"

definition getComponentByKey :: "ComponentKey \<Rightarrow> Fault + Component" where
  "getComponentByKey k =
     (case map_of PARSERS k of
        Some component \<Rightarrow> Inr component
      | None \<Rightarrow> Inl (Error (''Could not retrieve component for key: '' @ showKey k)))"

definition isParsableAction :: "Collaborators \<Rightarrow> string \<Rightarrow> bool" where
  "isParsableAction C text = (getComponentByText C text \<noteq> None)"

section \<open>A small world on which the model runs\<close>

text \<open>
  One instance of the collaborators and one game, on which the components are run: a
  corridor of three rooms, the players Alice, Bob and Bobby, and a wolf that no player
  controls. An inventory is full at three stacks. The sample prints every whole number
  in decimal.
\<close>

definition basicItem :: "string \<Rightarrow> Item" where
  "basicItem n =
     \<lparr>Item.name = n, range' = Num 0, damageAmount = Num 0, accuracy = Num 0, bullet = [],
      Item.stats = \<lparr>health = Num 0, intelligence = Num 0, strength = Num 0, agility = Num 0\<rparr>,
      curesPoisoning = False, isPoisoned = False, isAddictive = False,
      givesImmortality = False, addictionRelief = 0, exhaustionRelief = 0, hungerRelief = 0\<rparr>"

definition fist :: Item where
  "fist = (basicItem ''Fist'')\<lparr>range' := Num 1, damageAmount := Num 1\<rparr>"

definition pistol :: Item where
  "pistol = (basicItem ''Pistol'')\<lparr>range' := Num 3, damageAmount := Num 10,
     accuracy := Num 50, bullet := ''Bullet''\<rparr>"

definition stacksHave :: "ItemStack list \<Rightarrow> string \<Rightarrow> bool" where
  "stacksHave ss n = list_ex (\<lambda>s. Item.name (item s) = n) ss"

definition stacksGet :: "ItemStack list \<Rightarrow> string \<Rightarrow> ItemStack option" where
  "stacksGet ss n = find (\<lambda>s. Item.name (item s) = n) ss"

definition stacksRemove ::
  "Inventory \<Rightarrow> string \<Rightarrow> Number \<Rightarrow> Fault + (Inventory \<times> ItemStack)" where
  "stacksRemove i n k =
     (case stacksGet (itemStacks i) n of
        None \<Rightarrow> Inl (Error (''Nothing to remove: '' @ n))
      | Some s \<Rightarrow>
          Inr (\<lparr>itemStacks = filter (\<lambda>s. Number_less (Num 0) (stackAmount s))
                  (map (\<lambda>s. if Item.name (item s) = n
                            then s\<lparr>stackAmount := Number_sub (stackAmount s) k\<rparr>
                            else s) (itemStacks i))\<rparr>,
               s\<lparr>stackAmount := k\<rparr>))"

fun containsFragment :: "string \<Rightarrow> string \<Rightarrow> bool" where
  "containsFragment fragment [] = (fragment = [])"
| "containsFragment fragment (c # cs) =
     (toLowerCase fragment = toLowerCase (take (length fragment) (c # cs))
      \<or> containsFragment fragment cs)"

definition withinGrid :: "GameMap \<Rightarrow> Position \<Rightarrow> bool" where
  "withinGrid m p =
     (0 \<le> fst p \<and> nat (fst p) < length m \<and> 0 \<le> snd p \<and> nat (snd p) < length (m ! nat (fst p)))"

definition cellAt :: "GameMap \<Rightarrow> Position \<Rightarrow> Cell" where
  "cellAt m p =
     (if withinGrid m p then m ! nat (fst p) ! nat (snd p)
      else \<lparr>Cell.row = fst p, Cell.col = snd p, representation = ''#'', hasCamp = False, items = []\<rparr>)"

definition positionsBetween :: "Position \<Rightarrow> Position \<Rightarrow> Position list" where
  "positionsBetween p q =
     (if fst p = fst q then map (\<lambda>c. (fst p, c)) [min (snd p) (snd q) + 1..max (snd p) (snd q) - 1]
      else if snd p = snd q then
        map (\<lambda>r. (r, snd p)) [min (fst p) (fst q) + 1..max (fst p) (fst q) - 1]
      else [])"

definition sampleCollaborators :: Collaborators where
  "sampleCollaborators =
     \<lparr>isApproximateSubstring = containsFragment,
      isPlaying = (\<lambda>g p. Number_less (Num 0) (health (Animal.stats (heap g (character p))))),
      Game_getPlayer = (\<lambda>g i. find (\<lambda>p. id' p = i) (players g)),
      Inventory_hasItem = (\<lambda>i n. stacksHave (itemStacks i) n),
      Inventory_getItem = (\<lambda>i n. stacksGet (itemStacks i) n),
      Inventory_inventoryIsFull = (\<lambda>i. 3 \<le> length (itemStacks i)),
      Inventory_removeFromInventory = stacksRemove,
      Item_hasItem = stacksHave,
      Item_getItem = stacksGet,
      Item_stackIsFull = (\<lambda>s. Number_lessEq (maxStackAmount s) (stackAmount s)),
      Weapon_FIST = fist,
      Weapon_isWeaponGun = (\<lambda>i. bullet i \<noteq> []),
      Weapon_stringIsAttackWeaponName = (\<lambda>n. n = ''Fist'' \<or> n = ''Pistol''),
      Ingestible_itemIsIngestible = (\<lambda>i. Item.name i = ''Stew''),
      Stats_changeStats = (\<lambda>s d. \<lparr>health = Number_add (health s) (health d),
         intelligence = Number_add (intelligence s) (intelligence d),
         strength = Number_add (strength s) (strength d),
         agility = Number_add (agility s) (agility d)\<rparr>),
      Character_meterIsActive = isActive,
      Character_updateMeterCurrentValue = (\<lambda>m r. min (maximum m) (current m + r)),
      Animal_isDead = (\<lambda>a. Number_lessEq (health (Animal.stats a)) (Num 0)),
      Map_isWithinMap = withinGrid,
      Map_getCell = cellAt,
      Cell_isRoom = (\<lambda>c. representation c = ''_''),
      Cell_isBarrier = (\<lambda>c. representation c = ''#''),
      Cell_cardinalPositionDistance =
        (\<lambda>a b. Num (\<bar>Cell.row a - Cell.row b\<bar> + \<bar>Cell.col a - Cell.col b\<bar>)),
      Cell_getPositionsBetween = positionsBetween,
      describeRoom = (\<lambda>c m. ''A room.''),
      reveal = (\<lambda>m c. c # m),
      rng_pickone = (\<lambda>n. (even n, Suc n)),
      Weapon_namesForAttacking = [''Fist'', ''Pistol''],
      Ingestible_names = [''Stew''],
      itemNames = [''Pistol'', ''Bullet'', ''Stew'', ''Rock''],
      Number_toString = showInt\<rparr>"

definition bullets :: "int \<Rightarrow> ItemStack" where
  "bullets n = createItemStack (basicItem ''Bullet'') (Num n) (Num 10)"

definition room :: "int \<Rightarrow> bool \<Rightarrow> ItemStack list \<Rightarrow> Cell" where
  "room c camp ss =
     \<lparr>Cell.row = 0, Cell.col = c, representation = ''_'', hasCamp = camp, items = ss\<rparr>"

definition restedMeter :: Meter where
  "restedMeter = \<lparr>isActive = False, current = 10, maximum = 10\<rparr>"

definition tired :: Effects where
  "tired = \<lparr>exhaustion = \<lparr>isActive = True, current = 3, maximum = 10\<rparr>, poison = restedMeter,
     addiction = restedMeter, immortality = restedMeter, hunger = restedMeter\<rparr>"

definition animalAt :: "int \<Rightarrow> string option \<Rightarrow> ItemStack list \<Rightarrow> Animal" where
  "animalAt c p ss =
     \<lparr>Animal.row = 0, Animal.col = c,
      Animal.stats = \<lparr>health = Num 50, intelligence = Num 5, strength = Num 20,
        agility = Num 20\<rparr>,
      inventory = \<lparr>itemStacks = ss\<rparr>, playerId = p, effects = tired, Animal.map' = []\<rparr>"

definition alice :: Player where
  "alice = \<lparr>id' = ''1'', name = ''Alice'', character = 0\<rparr>"

definition bob :: Player where
  "bob = \<lparr>id' = ''2'', name = ''Bob'', character = 1\<rparr>"

definition bobby :: Player where
  "bobby = \<lparr>id' = ''3'', name = ''Bobby'', character = 2\<rparr>"

definition wolf :: Animal where
  "wolf = animalAt 1 None []"

definition sampleGame :: Game where
  "sampleGame =
     \<lparr>players = [alice, bob, bobby],
      Game.map' = [[room 0 True [bullets 7], room 1 False [bullets 5], room 2 False [bullets 3]]],
      heap = (\<lambda>r. wolf)
        (0 := animalAt 0 (Some ''1'')
                [createItemStack pistol (Num 1) (Num 1), bullets 6,
                 createItemStack (basicItem ''Rock'') (Num 1) (Num 5)],
         1 := animalAt 1 (Some ''2'') [bullets 8],
         2 := animalAt 2 (Some ''3'') []),
      rng = 0\<rparr>"

definition attackWith :: "ref \<Rightarrow> string \<Rightarrow> string \<Rightarrow> int \<Rightarrow> AttackAction" where
  "attackWith r target weapon n =
     \<lparr>actor = r, timestamp = 0, key = Attack, targetName = target, weaponName = weapon,
      times' = Num n\<rparr>"

definition restOf :: "ref \<Rightarrow> RestAction" where
  "restOf r = \<lparr>actor = r, timestamp = 0, key = Rest\<rparr>"

definition passOf :: "ref \<Rightarrow> PassAction" where
  "passOf r = \<lparr>actor = r, timestamp = 0, key = Pass\<rparr>"

definition ingestOf :: "ref \<Rightarrow> string \<Rightarrow> IngestAction" where
  "ingestOf r n = \<lparr>actor = r, timestamp = 0, key = Ingest, IngestAction.itemName = n\<rparr>"

definition pickupOf :: "ref \<Rightarrow> string \<Rightarrow> Number option \<Rightarrow> ItemTransaction" where
  "pickupOf r n k =
     \<lparr>actor = r, timestamp = 0, key = Pickup, itemName = n, transactionAmount = k\<rparr>"

definition moveOf :: "ref \<Rightarrow> int \<Rightarrow> int \<Rightarrow> MoveAction" where
  "moveOf r dr dc = \<lparr>actor = r, timestamp = 0, key = Move, offsetRow = dr, offsetCol = dc\<rparr>"

section \<open>Arithmetic below \<open>2 ^ 53\<close>\<close>

text \<open>On whole numbers below \<open>2 ^ 53\<close> in magnitude the operations are exact.\<close>

lemma toDouble_safe:
  assumes "\<bar>i\<bar> < 2 ^ 53"
  shows "toDouble i = Num i"
proof -
  from assms have n: "nat \<bar>i\<bar> < 2 ^ 53"
    by (simp add: nat_less_iff)
  have "(2::nat) ^ 53 < 2 ^ 1024"
    by (rule power_strict_increasing) simp_all
  with n have big: "\<not> (2::nat) ^ 1024 \<le> nat \<bar>i\<bar>"
    by linarith
  from n have m: "toDoubleNat (nat \<bar>i\<bar>) = nat \<bar>i\<bar>"
    unfolding toDoubleNat_def by (rule if_P)
  have "toDouble i = Num (if i < 0 then - int (nat \<bar>i\<bar>) else int (nat \<bar>i\<bar>))"
    unfolding toDouble_def Let_def m using big by (rule if_not_P)
  also have "(if i < 0 then - int (nat \<bar>i\<bar>) else int (nat \<bar>i\<bar>)) = i"
    by (cases "i < 0") simp_all
  finally show ?thesis .
qed

lemma bitLength_le: "n < 2 ^ k \<Longrightarrow> bitLength n \<le> k"
proof (induction k arbitrary: n)
  case 0
  then show ?case by (simp add: bitLength.simps)
next
  case (Suc k)
  show ?case
  proof (cases "n = 0")
    case True
    then show ?thesis by (simp add: bitLength.simps)
  next
    case False
    from Suc.prems have "n div 2 < 2 ^ k" by simp
    then have "bitLength (n div 2) \<le> k" by (rule Suc.IH)
    with False show ?thesis by (subst bitLength.simps) simp
  qed
qed

lemma roundHalfEven_lower: "p div q \<le> roundHalfEven p q"
  by (simp add: roundHalfEven_def Let_def)

lemma roundHalfEven_upper:
  assumes "0 < q"
  shows "2 * q * roundHalfEven p q \<le> 2 * p + q"
proof -
  define d where "d = p div q"
  define r where "r = p mod q"
  have p: "p = q * d + r" unfolding d_def r_def by simp
  have r: "roundHalfEven p q = (if q < 2 * r \<or> (2 * r = q \<and> odd d) then Suc d else d)"
    unfolding roundHalfEven_def Let_def d_def r_def ..
  have e: "2 * p = 2 * (q * d) + 2 * r" unfolding p by simp
  show ?thesis
  proof (cases "q < 2 * r \<or> (2 * r = q \<and> odd d)")
    case True
    then have "q \<le> 2 * r" by auto
    moreover have "2 * q * Suc d = 2 * (q * d) + 2 * q" by simp
    ultimately have "2 * q * Suc d \<le> 2 * p + q" using e by linarith
    moreover from True have "roundHalfEven p q = Suc d" unfolding r by (rule if_P)
    ultimately show ?thesis by simp
  next
    case False
    have "2 * q * d = 2 * (q * d)" by simp
    then have "2 * q * d \<le> 2 * p + q" using e by linarith
    moreover from False have "roundHalfEven p q = d" unfolding r by (rule if_not_P)
    ultimately show ?thesis by simp
  qed
qed

lemma divide100_safe:
  assumes "100 \<le> m" and "m < 2 ^ 53"
  shows "fst (divide100 m) div snd (divide100 m) = m div 100"
proof -
  define d where "d = m div 100"
  define s where "s = 53 - bitLength d"
  define P :: nat where "P = 2 ^ s"
  define M where "M = roundHalfEven (m * P) 100"
  have md: "100 * d \<le> m" unfolding d_def by simp
  have mu: "m < 100 * d + 100" unfolding d_def
    using mod_less_divisor[of 100 m] mult_div_mod_eq[of 100 m] by linarith
  have "100 * d < 2 ^ 53" using md assms(2) by linarith
  moreover have "(2::nat) ^ 53 = 64 * 2 ^ 47" by simp
  ultimately have d47: "d < 2 ^ 47" by linarith
  then have "bitLength d \<le> 47" by (rule bitLength_le)
  then have "6 \<le> s" unfolding s_def by simp
  then have "(2::nat) ^ 6 \<le> 2 ^ s" by (rule power_increasing) simp
  then have P: "64 \<le> P" unfolding P_def by simp
  have "(2::nat) ^ 47 < 2 ^ 52" by (rule power_strict_increasing) simp_all
  with d47 have d52: "d < 2 ^ 52" by linarith
  have "divide100 m = (let s = 53 - bitLength d in (roundHalfEven (m * 2 ^ s) 100, 2 ^ s))"
    unfolding divide100_def d_def[symmetric] Let_def using d52 by (rule if_P)
  then have q: "divide100 m = (M, P)"
    unfolding Let_def M_def P_def s_def .
  have lo1: "(100 * d) * P \<le> m * P"
    using md by (rule mult_le_mono1)
  have "d * P = ((100 * d) * P) div 100" by simp
  also have "\<dots> \<le> (m * P) div 100" using lo1 by (rule div_le_mono)
  also have "\<dots> \<le> M" unfolding M_def by (rule roundHalfEven_lower)
  finally have lo: "d * P \<le> M" .
  have "m \<le> 100 * d + 99" using mu by linarith
  then have "m * P \<le> (100 * d + 99) * P" by (rule mult_le_mono1)
  then have hi1: "m * P \<le> 100 * (d * P) + 99 * P"
    by (simp add: algebra_simps)
  have "2 * 100 * M \<le> 2 * (m * P) + 100"
    unfolding M_def by (rule roundHalfEven_upper) simp
  with hi1 P have "M < d * P + P" by linarith
  then have hi: "M < Suc d * P" by simp
  have "M div P = d"
    using lo hi by (intro div_nat_eqI) (simp_all add: mult.commute)
  with q show ?thesis by (simp add: d_def)
qed

lemma floorDivide100_safe:
  assumes "0 \<le> i" and "i < 2 ^ 53"
  shows "floorDivide100 i = i div 100"
proof (cases "i < 100")
  case True
  with assms show ?thesis by (simp add: floorDivide100_def)
next
  case False
  with assms have m: "100 \<le> nat i" "nat i < 2 ^ 53"
    by (simp_all add: nat_less_iff)
  have "int (fst (divide100 (nat i))) div int (snd (divide100 (nat i)))
      = int (fst (divide100 (nat i)) div snd (divide100 (nat i)))"
    by (simp add: zdiv_int)
  also have "\<dots> = int (nat i div 100)"
    using divide100_safe[OF m] by simp
  also have "\<dots> = i div 100"
    using assms(1) by (simp add: zdiv_int)
  finally have "int (fst (divide100 (nat i))) div int (snd (divide100 (nat i))) = i div 100" .
  moreover have "floorDivide100 i
      = int (fst (divide100 (nat i))) div int (snd (divide100 (nat i)))"
    using False assms(1) by (simp add: floorDivide100_def Let_def)
  ultimately show ?thesis by simp
qed

text \<open>A result below \<open>2 ^ 64\<close> is far from the infinities.\<close>

lemma toDouble_finite:
  assumes "toDoubleNat (nat \<bar>i\<bar>) < 2 ^ 64"
  shows "toDouble i =
    Num (if i < 0 then - int (toDoubleNat (nat \<bar>i\<bar>)) else int (toDoubleNat (nat \<bar>i\<bar>)))"
proof -
  have "(2::nat) ^ 64 < 2 ^ 1024"
    by (rule power_strict_increasing) simp_all
  with assms have "\<not> (2::nat) ^ 1024 \<le> toDoubleNat (nat \<bar>i\<bar>)"
    by linarith
  then show ?thesis
    unfolding toDouble_def Let_def by (rule if_not_P)
qed

lemmas number_eval =
  toDoubleNat_def divide100_def floorDivide100_def roundHalfEven_def bitLength.simps
  toDouble_finite Let_def

lemmas sample_defs =
  sampleCollaborators_def sampleGame_def attackWith_def alice_def bob_def bobby_def wolf_def
  animalAt_def bullets_def room_def tired_def restedMeter_def pistol_def fist_def
  basicItem_def createItemStack_def stacksHave_def stacksGet_def stacksRemove_def
  withinGrid_def cellAt_def positionsBetween_def toLowerCase_def toLowerCaseChar_def
  Number_sub_def Number_lessEq_def Math_max_def toDouble_safe

section \<open>Damage of an attack\<close>

lemma attackCost_health:
  "health (Animal.stats (heap (fst (attackCost C a ws g)) r)) = health (Animal.stats (heap g r))"
  by (simp add: attackCost_def Let_def split: sum.splits prod.splits)

lemma setHealth_health: "health (Animal.stats (heap (setHealth r h g) r)) = h"
  by (simp add: setHealth_def)

text \<open>Once the weapon and the target are resolved, \<^verbatim>\<open>perform\<close> ends in the state after the
  damage, or in that state after the attacker has paid.\<close>

lemma ATTACK_perform_state:
  assumes "Weapon_stringIsAttackWeaponName C (weaponName a)"
    and "attackWeaponStack C (inventory (heap game (actor a))) (weaponName a) = Some ws"
    and "findTarget C game (targetName a) = Some tp"
    and "g1 = setHealth (character tp)
           (Math_max (Num 0) (Number_sub (health (Animal.stats (heap game (character tp))))
              (Number_mul (actualTimesAttacked C (item ws) (times' a)) (damageAmount (item ws)))))
           game"
  shows "fst (ATTACK_perform C a game lg) = g1
       \<or> fst (ATTACK_perform C a game lg) = fst (attackCost C a ws g1)"
  using assms
  by (simp add: ATTACK_perform_def Let_def split: sum.splits prod.splits option.splits)

lemma actualTimesAttacked_exact:
  assumes "accuracyPercentage C w = Num acc" and "0 \<le> n * acc" and "n * acc < 2 ^ 53"
  shows "actualTimesAttacked C w (Num n) = Num ((n * acc) div 100)"
proof -
  from assms(2,3) have "\<bar>n * acc\<bar> < 2 ^ 53" by simp
  then have "Number_mul (Num n) (Num acc) = Num (n * acc)"
    by (simp add: toDouble_safe)
  then show ?thesis
    using assms by (simp add: actualTimesAttacked_def floorDivide100_safe)
qed

lemma damage_exact:
  assumes "\<bar>e * d\<bar> < 2 ^ 53" and "\<bar>h - e * d\<bar> < 2 ^ 53"
  shows "Math_max (Num 0) (Number_sub (Num h) (Number_mul (Num e) (Num d)))
           = Num (max 0 (h - e * d))"
proof -
  from assms(1) have "Number_mul (Num e) (Num d) = Num (e * d)"
    by (simp add: toDouble_safe)
  moreover from assms(2) have "Number_sub (Num h) (Num (e * d)) = Num (h - e * d)"
    by (simp add: Number_sub_def toDouble_safe)
  ultimately show ?thesis
    by (simp add: Math_max_def max_def)
qed

text \<open>
  C1, as the code has it. Whenever \<^verbatim>\<open>ATTACK_COMPONENT.perform\<close> gets as far as the damage (the
  weapon name is an attack weapon, the weapon stack and the target are resolved), the
  effective number of strikes is \<^verbatim>\<open>Math.floor(N * A / 100.0)\<close> in double arithmetic, with
  the accuracy \<open>A\<close> of a gun and 100 for any other weapon, and the health of the target at
  the end of \<^verbatim>\<open>perform\<close> is \<^verbatim>\<open>Math.max(0, priorHealth - effectiveStrikes * D)\<close> in double
  arithmetic, whether \<^verbatim>\<open>perform\<close> returns or throws later. For whole \<open>N\<close> and \<open>A\<close> with
  \<open>0 \<le> N * A < 2 ^ 53\<close> the effective number of strikes is \<open>floor(N * A / 100)\<close>, and
  \<open>N\<close> for a weapon that is not a gun; where the product and the difference stay below
  \<open>2 ^ 53\<close> in magnitude the health is \<open>max 0 (priorHealth - effectiveStrikes * D)\<close>, and
  with an accuracy of 100 it is \<open>max 0 (priorHealth - N * D)\<close>.
\<close>

theorem ATTACK_perform_damage:
  assumes "Weapon_stringIsAttackWeaponName C (weaponName a)"
    and "attackWeaponStack C (inventory (heap game (actor a))) (weaponName a) = Some ws"
    and "findTarget C game (targetName a) = Some tp"
  shows "actualTimesAttacked C (item ws) (times' a) =
           Math_floor_divide100 (Number_mul (times' a)
             (if Weapon_isWeaponGun C (item ws) then accuracy (item ws) else Num 100))
       \<and> health (Animal.stats (heap (fst (ATTACK_perform C a game lg)) (character tp))) =
           Math_max (Num 0) (Number_sub (health (Animal.stats (heap game (character tp))))
             (Number_mul (actualTimesAttacked C (item ws) (times' a)) (damageAmount (item ws))))
       \<and> (\<forall>n acc. times' a = Num n \<and> accuracyPercentage C (item ws) = Num acc
             \<and> 0 \<le> n * acc \<and> n * acc < 2 ^ 53 \<longrightarrow>
           actualTimesAttacked C (item ws) (times' a) = Num ((n * acc) div 100))
       \<and> (\<forall>n. times' a = Num n \<and> \<not> Weapon_isWeaponGun C (item ws)
             \<and> 0 \<le> n \<and> n * 100 < 2 ^ 53 \<longrightarrow>
           actualTimesAttacked C (item ws) (times' a) = Num n)
       \<and> (\<forall>e d h. actualTimesAttacked C (item ws) (times' a) = Num e
             \<and> damageAmount (item ws) = Num d
             \<and> health (Animal.stats (heap game (character tp))) = Num h
             \<and> \<bar>e * d\<bar> < 2 ^ 53 \<and> \<bar>h - e * d\<bar> < 2 ^ 53 \<longrightarrow>
           health (Animal.stats (heap (fst (ATTACK_perform C a game lg)) (character tp))) =
             Num (max 0 (h - e * d)))
       \<and> (\<forall>n d h. times' a = Num n \<and> accuracyPercentage C (item ws) = Num 100
             \<and> damageAmount (item ws) = Num d
             \<and> health (Animal.stats (heap game (character tp))) = Num h
             \<and> 0 \<le> n \<and> n * 100 < 2 ^ 53 \<and> \<bar>n * d\<bar> < 2 ^ 53 \<and> \<bar>h - n * d\<bar> < 2 ^ 53 \<longrightarrow>
           health (Animal.stats (heap (fst (ATTACK_perform C a game lg)) (character tp))) =
             Num (max 0 (h - n * d)))"
proof -
  let ?eff = "actualTimesAttacked C (item ws) (times' a)"
  let ?after = "health (Animal.stats (heap (fst (ATTACK_perform C a game lg)) (character tp)))"
  let ?before = "health (Animal.stats (heap game (character tp)))"
  have c1: "?eff = Math_floor_divide100 (Number_mul (times' a)
             (if Weapon_isWeaponGun C (item ws) then accuracy (item ws) else Num 100))"
    by (simp add: actualTimesAttacked_def accuracyPercentage_def)
  have c2: "?after = Math_max (Num 0) (Number_sub ?before
             (Number_mul ?eff (damageAmount (item ws))))"
    using ATTACK_perform_state[OF assms refl, of lg]
    by (auto simp: attackCost_health setHealth_health)
  have c3: "?eff = Num ((n * acc) div 100)"
    if "times' a = Num n" "accuracyPercentage C (item ws) = Num acc"
      "0 \<le> n * acc" "n * acc < 2 ^ 53" for n acc
    using actualTimesAttacked_exact[OF that(2,3,4)] that(1) by simp
  have c4: "?eff = Num n"
    if "times' a = Num n" "\<not> Weapon_isWeaponGun C (item ws)" "0 \<le> n" "n * 100 < 2 ^ 53" for n
  proof -
    from that(2) have "accuracyPercentage C (item ws) = Num 100"
      by (simp add: accuracyPercentage_def)
    from c3[OF that(1) this] that(3,4) show ?thesis by simp
  qed
  have c5: "?after = Num (max 0 (h - e * d))"
    if "?eff = Num e" "damageAmount (item ws) = Num d" "?before = Num h"
      "\<bar>e * d\<bar> < 2 ^ 53" "\<bar>h - e * d\<bar> < 2 ^ 53" for e d h
    using c2 damage_exact[OF that(4,5)] that(1,2,3) by simp
  have c6: "?after = Num (max 0 (h - n * d))"
    if "times' a = Num n" "accuracyPercentage C (item ws) = Num 100"
      "damageAmount (item ws) = Num d" "?before = Num h"
      "0 \<le> n" "n * 100 < 2 ^ 53" "\<bar>n * d\<bar> < 2 ^ 53" "\<bar>h - n * d\<bar> < 2 ^ 53" for n d h
  proof -
    from c3[OF that(1,2)] that(5,6) have "?eff = Num n" by simp
    from c5[OF this that(3,4,7,8)] show ?thesis .
  qed
  from c1 c2 c3 c4 c5 c6 show ?thesis
    by blast
qed

theorem ATTACK_perform_damage_witness:
  "Weapon_stringIsAttackWeaponName sampleCollaborators
     (weaponName (attackWith 0 ''bob'' ''Pistol'' 4))
   \<and> attackWeaponStack sampleCollaborators
        (inventory (heap sampleGame (actor (attackWith 0 ''bob'' ''Pistol'' 4))))
        (weaponName (attackWith 0 ''bob'' ''Pistol'' 4))
        = Some (createItemStack pistol (Num 1) (Num 1))
   \<and> findTarget sampleCollaborators sampleGame
        (targetName (attackWith 0 ''bob'' ''Pistol'' 4)) = Some bob
   \<and> actualTimesAttacked sampleCollaborators pistol (Num 4) = Num 2
   \<and> health (Animal.stats (heap (fst (ATTACK_perform sampleCollaborators
        (attackWith 0 ''bob'' ''Pistol'' 4) sampleGame [])) 1)) = Num 30
   \<and> attackWeaponStack sampleCollaborators
        (inventory (heap sampleGame (actor (attackWith 0 ''bob'' ''Fist'' 3))))
        (weaponName (attackWith 0 ''bob'' ''Fist'' 3))
        = Some (createItemStack fist (Num 1) (Num 1))
   \<and> accuracyPercentage sampleCollaborators fist = Num 100
   \<and> \<not> Weapon_isWeaponGun sampleCollaborators fist
   \<and> health (Animal.stats (heap (fst (ATTACK_perform sampleCollaborators
        (attackWith 0 ''bob'' ''Fist'' 3) sampleGame [])) 1)) = Num 47"
proof -
  have h1: "Weapon_stringIsAttackWeaponName sampleCollaborators
      (weaponName (attackWith 0 ''bob'' w n))" if "w = ''Pistol'' \<or> w = ''Fist''" for w n
    using that by (auto simp: sample_defs)
  have h2: "attackWeaponStack sampleCollaborators
      (inventory (heap sampleGame (actor (attackWith 0 ''bob'' ''Pistol'' 4))))
      (weaponName (attackWith 0 ''bob'' ''Pistol'' 4))
      = Some (createItemStack pistol (Num 1) (Num 1))"
    by (simp add: sample_defs attackWeaponStack_def)
  have h2': "attackWeaponStack sampleCollaborators
      (inventory (heap sampleGame (actor (attackWith 0 ''bob'' ''Fist'' 3))))
      (weaponName (attackWith 0 ''bob'' ''Fist'' 3))
      = Some (createItemStack fist (Num 1) (Num 1))"
    by (simp add: sample_defs attackWeaponStack_def)
  have h3: "findTarget sampleCollaborators sampleGame
      (targetName (attackWith 0 ''bob'' w n)) = Some bob" for w n
    by (simp add: sample_defs findTarget_def)
  have f: "accuracyPercentage sampleCollaborators fist = Num 100"
    "\<not> Weapon_isWeaponGun sampleCollaborators fist"
    "accuracyPercentage sampleCollaborators pistol = Num 50"
    by (simp_all add: sample_defs accuracyPercentage_def)
  have p: "health (Animal.stats (heap sampleGame (character bob))) = Num 50"
    by (simp add: sample_defs)
  have i: "item (createItemStack pistol (Num 1) (Num 1)) = pistol"
    "item (createItemStack fist (Num 1) (Num 1)) = fist"
    "damageAmount pistol = Num 10" "damageAmount fist = Num 1" "character bob = 1"
    "times' (attackWith 0 ''bob'' w n) = Num n" for w n
    by (simp_all add: sample_defs)
  note g = ATTACK_perform_damage[OF h1 h2 h3, of "[]", unfolded i]
  note m = ATTACK_perform_damage[OF h1 h2' h3, of "[]", unfolded i]
  from g have g3: "actualTimesAttacked sampleCollaborators pistol (Num 4) = Num ((n * acc) div 100)"
    if "Num 4 = Num n \<and> accuracyPercentage sampleCollaborators pistol = Num acc
      \<and> 0 \<le> n * acc \<and> n * acc < 2 ^ 53" for n acc
    using that by blast
  have e: "actualTimesAttacked sampleCollaborators pistol (Num 4) = Num 2"
    using g3[of 4 50] f by simp
  from g have g5: "health (Animal.stats (heap (fst (ATTACK_perform sampleCollaborators
        (attackWith 0 ''bob'' ''Pistol'' 4) sampleGame [])) 1)) = Num (max 0 (h - e * d))"
    if "actualTimesAttacked sampleCollaborators pistol (Num 4) = Num e \<and> Num 10 = Num d
      \<and> health (Animal.stats (heap sampleGame 1)) = Num h
      \<and> \<bar>e * d\<bar> < 2 ^ 53 \<and> \<bar>h - e * d\<bar> < 2 ^ 53" for e d h
    using that by blast
  have gun: "health (Animal.stats (heap (fst (ATTACK_perform sampleCollaborators
        (attackWith 0 ''bob'' ''Pistol'' 4) sampleGame [])) 1)) = Num 30"
    using g5[of 2 10 50] e p i by simp
  from m have m6: "health (Animal.stats (heap (fst (ATTACK_perform sampleCollaborators
        (attackWith 0 ''bob'' ''Fist'' 3) sampleGame [])) 1)) = Num (max 0 (h - n * d))"
    if "Num 3 = Num n \<and> accuracyPercentage sampleCollaborators fist = Num 100 \<and> Num 1 = Num d
      \<and> health (Animal.stats (heap sampleGame 1)) = Num h
      \<and> 0 \<le> n \<and> n * 100 < 2 ^ 53 \<and> \<bar>n * d\<bar> < 2 ^ 53 \<and> \<bar>h - n * d\<bar> < 2 ^ 53" for n d h
    using that by blast
  have melee: "health (Animal.stats (heap (fst (ATTACK_perform sampleCollaborators
        (attackWith 0 ''bob'' ''Fist'' 3) sampleGame [])) 1)) = Num 47"
    using m6[of 3 1 50] f p i by simp
  from h1 h2 h2' h3 e f gun melee show ?thesis
    by simp
qed

lemmas attack_defs =
  ATTACK_perform_def attackNotices_def attackCost_def attackWeaponStack_def findTarget_def
  actualTimesAttacked_def accuracyPercentage_def setHealth_def isPlayerCharacter_def
  createGameMessage_def showInt_def showNat.simps Let_def

lemmas validate_defs =
  ATTACK_validate_def attackWeaponStack_def findTarget_def position_def
  showInt_def showNat.simps Let_def

text \<open>Alice strikes Bob 360287970189641 times with her fist: \<^verbatim>\<open>validate\<close> accepts, and the
  product with 100 is rounded, so the effective number of strikes is one less.\<close>

theorem ATTACK_strikes_counterexample:
  "ATTACK_validate sampleCollaborators (attackWith 0 ''bob'' ''Fist'' 360287970189641) sampleGame
     = Inr \<lparr>isValid = True, error = None\<rparr>
   \<and> \<not> Weapon_isWeaponGun sampleCollaborators fist
   \<and> actualTimesAttacked sampleCollaborators fist (Num 360287970189641) = Num 360287970189640
   \<and> snd (ATTACK_perform sampleCollaborators (attackWith 0 ''bob'' ''Fist'' 360287970189641)
        sampleGame [])
     = Inr \<lparr>log = [], messages =
         [createGameMessage
            ''You attacked Bob 360287970189640 time(s) for a total of 360287970189640 damage!''
            [alice],
          createGameMessage ''Alice attacked you for 360287970189640 damage!'' [bob],
          createGameMessage ''You killed Bob!'' [alice],
          createGameMessage ''You were killed by Alice'' [bob]]\<rparr>"
proof -
  have e: "actualTimesAttacked sampleCollaborators fist (Num 360287970189641)
      = Num 360287970189640"
    by (simp add: actualTimesAttacked_def accuracyPercentage_def sampleCollaborators_def
        fist_def basicItem_def number_eval)
  have v: "ATTACK_validate sampleCollaborators (attackWith 0 ''bob'' ''Fist'' 360287970189641)
      sampleGame = Inr \<lparr>isValid = True, error = None\<rparr>"
    by (simp add: validate_defs sample_defs)
  have g: "\<not> Weapon_isWeaponGun sampleCollaborators fist"
    by (simp add: sample_defs)
  have p: "snd (ATTACK_perform sampleCollaborators (attackWith 0 ''bob'' ''Fist'' 360287970189641)
        sampleGame [])
     = Inr \<lparr>log = [], messages =
         [createGameMessage
            ''You attacked Bob 360287970189640 time(s) for a total of 360287970189640 damage!''
            [alice],
          createGameMessage ''Alice attacked you for 360287970189640 damage!'' [bob],
          createGameMessage ''You killed Bob!'' [alice],
          createGameMessage ''You were killed by Alice'' [bob]]\<rparr>"
    by (simp add: attack_defs sample_defs number_eval)
  from e v g p show ?thesis
    by simp
qed

section \<open>What an attack costs the attacker\<close>

lemma setHealth_other:
  "inventory (heap (setHealth r h g) q) = inventory (heap g q)"
  "playerId (heap (setHealth r h g) q) = playerId (heap g q)"
  "strength (Animal.stats (heap (setHealth r h g) q)) = strength (Animal.stats (heap g q))"
  "agility (Animal.stats (heap (setHealth r h g) q)) = agility (Animal.stats (heap g q))"
  "intelligence (Animal.stats (heap (setHealth r h g) q)) = intelligence (Animal.stats (heap g q))"
  "q \<noteq> r \<Longrightarrow> heap (setHealth r h g) q = heap g q"
  by (simp_all add: setHealth_def)








section \<open>Who can attack\<close>

lemma attackNotices_not_player:
  "\<not> isPlayerCharacter (heap g (actor a)) \<Longrightarrow>
     attackNotices C a ws tp g = Inl (Error ''Expected attacker to be a player!'')"
  by (simp add: attackNotices_def Let_def)

lemma isPlayerCharacter_setHealth:
  "isPlayerCharacter (heap (setHealth r h g) q) = isPlayerCharacter (heap g q)"
  by (simp add: isPlayerCharacter_def setHealth_other)

lemma ATTACK_validate_accepts:
  assumes "ATTACK_validate C a game = Inr r" and "isValid r"
  shows "attackWeaponStack C (inventory (heap game (actor a))) (weaponName a) \<noteq> None
       \<and> findTarget C game (targetName a) \<noteq> None"
  using assms
  by (auto simp: ATTACK_validate_def Let_def split: if_splits option.splits)

text \<open>
  C9, as the code has it. \<^verbatim>\<open>ATTACK_COMPONENT.perform\<close> never returns for an actor that is not
  a player-controlled character: it always ends in a fault, and the fault is the first of
  four. It is the error of line 404 when the weapon name is no attack weapon name, the
  TypeError of line 423 when the inventory holds no stack of the weapon, the error of line
  436 when no playing player matches the target name, and
  \<^verbatim>\<open>Expected attacker to be a player!\<close> in every other case, so whenever weapon and target
  are resolved, and so for every action with an attack weapon that \<^verbatim>\<open>validate\<close> accepts.
  Only player-controlled actors complete an attack.
\<close>

theorem ATTACK_perform_requires_player:
  assumes "\<not> isPlayerCharacter (heap game (actor a))"
  shows "isl (snd (ATTACK_perform C a game lg))
       \<and> snd (ATTACK_perform C a game lg) =
           (if \<not> Weapon_stringIsAttackWeaponName C (weaponName a) then
              Inl (Error ''Expected `weaponName` to be an attack weapon name!'')
            else if attackWeaponStack C (inventory (heap game (actor a))) (weaponName a) = None
            then Inl TypeError
            else if findTarget C game (targetName a) = None then
              Inl (Error (''Expected target player '' @ [CHR 0x22] @ targetName a
                 @ [CHR 0x22] @ '' to exist!''))
            else Inl (Error ''Expected attacker to be a player!''))
       \<and> (Weapon_stringIsAttackWeaponName C (weaponName a)
            \<and> attackWeaponStack C (inventory (heap game (actor a))) (weaponName a) \<noteq> None
            \<and> findTarget C game (targetName a) \<noteq> None
          \<longrightarrow> snd (ATTACK_perform C a game lg) = Inl (Error ''Expected attacker to be a player!''))
       \<and> (Weapon_stringIsAttackWeaponName C (weaponName a)
            \<and> ATTACK_validate C a game = Inr \<lparr>isValid = True, error = None\<rparr>
          \<longrightarrow> snd (ATTACK_perform C a game lg) = Inl (Error ''Expected attacker to be a player!''))"
proof -
  have exact: "snd (ATTACK_perform C a game lg) =
           (if \<not> Weapon_stringIsAttackWeaponName C (weaponName a) then
              Inl (Error ''Expected `weaponName` to be an attack weapon name!'')
            else if attackWeaponStack C (inventory (heap game (actor a))) (weaponName a) = None
            then Inl TypeError
            else if findTarget C game (targetName a) = None then
              Inl (Error (''Expected target player '' @ [CHR 0x22] @ targetName a
                 @ [CHR 0x22] @ '' to exist!''))
            else Inl (Error ''Expected attacker to be a player!''))"
    using assms
    by (auto simp: ATTACK_perform_def Let_def attackNotices_not_player isPlayerCharacter_setHealth
        split: option.splits)
  have reach: "snd (ATTACK_perform C a game lg) = Inl (Error ''Expected attacker to be a player!'')"
    if "Weapon_stringIsAttackWeaponName C (weaponName a)"
      and "attackWeaponStack C (inventory (heap game (actor a))) (weaponName a) \<noteq> None"
      and "findTarget C game (targetName a) \<noteq> None"
    using that exact by simp
  have fault: "isl (snd (ATTACK_perform C a game lg))"
    using exact by simp
  have valid: "snd (ATTACK_perform C a game lg) = Inl (Error ''Expected attacker to be a player!'')"
    if "Weapon_stringIsAttackWeaponName C (weaponName a)"
      and "ATTACK_validate C a game = Inr \<lparr>isValid = True, error = None\<rparr>"
    using reach[OF that(1)] ATTACK_validate_accepts[OF that(2)] by simp
  from exact reach fault valid show ?thesis
    by blast
qed

theorem ATTACK_perform_requires_player_witness:
  "\<not> isPlayerCharacter (heap sampleGame (actor (attackWith 3 ''bob'' ''Fist'' 2)))
   \<and> Weapon_stringIsAttackWeaponName sampleCollaborators (weaponName (attackWith 3 ''bob'' ''Fist'' 2))
   \<and> ATTACK_validate sampleCollaborators (attackWith 3 ''bob'' ''Fist'' 2) sampleGame
       = Inr \<lparr>isValid = True, error = None\<rparr>
   \<and> snd (ATTACK_perform sampleCollaborators (attackWith 3 ''bob'' ''Fist'' 2) sampleGame [])
       = Inl (Error ''Expected attacker to be a player!'')
   \<and> \<not> Weapon_stringIsAttackWeaponName sampleCollaborators
         (weaponName (attackWith 3 ''bob'' ''Rock'' 2))
   \<and> snd (ATTACK_perform sampleCollaborators (attackWith 3 ''bob'' ''Rock'' 2) sampleGame [])
       = Inl (Error ''Expected `weaponName` to be an attack weapon name!'')
   \<and> snd (ATTACK_perform sampleCollaborators (attackWith 3 ''bob'' ''Pistol'' 2) sampleGame [])
       = Inl TypeError"
proof -
  have p: "\<not> isPlayerCharacter (heap sampleGame (actor (attackWith 3 ''bob'' ''Fist'' 2)))"
    "\<not> isPlayerCharacter (heap sampleGame (actor (attackWith 3 ''bob'' ''Rock'' 2)))"
    "\<not> isPlayerCharacter (heap sampleGame (actor (attackWith 3 ''bob'' ''Pistol'' 2)))"
    by (simp_all add: isPlayerCharacter_def sample_defs)
  have n: "Weapon_stringIsAttackWeaponName sampleCollaborators
      (weaponName (attackWith 3 ''bob'' ''Fist'' 2))"
    "\<not> Weapon_stringIsAttackWeaponName sampleCollaborators
      (weaponName (attackWith 3 ''bob'' ''Rock'' 2))"
    "Weapon_stringIsAttackWeaponName sampleCollaborators
      (weaponName (attackWith 3 ''bob'' ''Pistol'' 2))"
    by (simp_all add: sample_defs)
  have v: "ATTACK_validate sampleCollaborators (attackWith 3 ''bob'' ''Fist'' 2) sampleGame
       = Inr \<lparr>isValid = True, error = None\<rparr>"
    by (simp add: validate_defs sample_defs)
  have w: "attackWeaponStack sampleCollaborators
      (inventory (heap sampleGame (actor (attackWith 3 ''bob'' ''Pistol'' 2))))
      (weaponName (attackWith 3 ''bob'' ''Pistol'' 2)) = None"
    by (simp add: sample_defs attackWeaponStack_def)
  have r1: "snd (ATTACK_perform sampleCollaborators (attackWith 3 ''bob'' ''Fist'' 2)
       sampleGame []) = Inl (Error ''Expected attacker to be a player!'')"
    using ATTACK_perform_requires_player[OF p(1), of sampleCollaborators "[]"] n(1) v
    by blast
  have r2: "snd (ATTACK_perform sampleCollaborators (attackWith 3 ''bob'' ''Rock'' 2)
       sampleGame []) = Inl (Error ''Expected `weaponName` to be an attack weapon name!'')"
    using ATTACK_perform_requires_player[OF p(2), of sampleCollaborators "[]"] n(2)
    by presburger
  have r3: "snd (ATTACK_perform sampleCollaborators (attackWith 3 ''bob'' ''Pistol'' 2)
       sampleGame []) = Inl TypeError"
    using ATTACK_perform_requires_player[OF p(3), of sampleCollaborators "[]"] n(3) w
    by presburger
  from p(1) n(1,2) v r1 r2 r3 show ?thesis
    by blast
qed

text \<open>The wolf, which no player controls, attacks the name carol, which no player bears:
  \<^verbatim>\<open>perform\<close> ends in the fault of line 436, not in \<^verbatim>\<open>Expected attacker to be a player!\<close>.\<close>

theorem ATTACK_perform_fault_counterexample:
  "\<not> isPlayerCharacter (heap sampleGame (actor (attackWith 3 ''carol'' ''Fist'' 2)))
   \<and> snd (ATTACK_perform sampleCollaborators (attackWith 3 ''carol'' ''Fist'' 2) sampleGame [])
       = Inl (Error (''Expected target player '' @ [CHR 0x22] @ ''carol'' @ [CHR 0x22]
            @ '' to exist!''))
   \<and> snd (ATTACK_perform sampleCollaborators (attackWith 3 ''carol'' ''Fist'' 2) sampleGame [])
       \<noteq> Inl (Error ''Expected attacker to be a player!'')"
  by (simp add: attack_defs isPlayerCharacter_def sample_defs)

section \<open>The target of an attack\<close>

lemma find_Some_split:
  "find P xs = Some y \<longleftrightarrow>
     (\<exists>before rest. xs = before @ y # rest \<and> P y \<and> (\<forall>x \<in> set before. \<not> P x))"
proof
  assume "find P xs = Some y"
  then obtain i where i: "i < length xs" "P (xs ! i)" "y = xs ! i" "\<forall>j<i. \<not> P (xs ! j)"
    unfolding find_Some_iff by blast
  have split: "xs = take i xs @ y # drop (Suc i) xs"
    using id_take_nth_drop[OF i(1)] i(3) by metis
  have "\<forall>x \<in> set (take i xs). \<not> P x"
    using i(1,4) by (auto simp: in_set_conv_nth)
  with split i(2,3) show "\<exists>before rest. xs = before @ y # rest \<and> P y \<and> (\<forall>x \<in> set before. \<not> P x)"
    by blast
next
  assume "\<exists>before rest. xs = before @ y # rest \<and> P y \<and> (\<forall>x \<in> set before. \<not> P x)"
  then obtain before rest where s: "xs = before @ y # rest" "P y" "\<forall>x \<in> set before. \<not> P x"
    by blast
  from s(2,3) have "find P (before @ y # rest) = Some y"
    by (induction before) simp_all
  with s(1) show "find P xs = Some y"
    by simp
qed

lemma findTarget_first:
  "findTarget C game fragment = Some tp \<longleftrightarrow>
     (\<exists>before rest. players game = before @ tp # rest
        \<and> isPlaying C game tp \<and> isApproximateSubstring C fragment (name tp)
        \<and> (\<forall>p \<in> set before.
              \<not> (isPlaying C game p \<and> isApproximateSubstring C fragment (name p))))"
  unfolding findTarget_def find_Some_split by blast

text \<open>The checks that \<^verbatim>\<open>validate\<close> makes, in terms of the target it has found.\<close>

lemma ATTACK_validate_accept_iff:
  "ATTACK_validate C a game = Inr \<lparr>isValid = True, error = None\<rparr> \<longleftrightarrow>
     (weaponName a = ''Fist''
        \<or> Inventory_hasItem C (inventory (heap game (actor a))) (weaponName a))
     \<and> isFinite (times' a) \<and> \<not> Number_lessEq (times' a) (Num 0)
     \<and> (\<exists>tp ws.
          findTarget C game (targetName a) = Some tp
          \<and> attackWeaponStack C (inventory (heap game (actor a))) (weaponName a) = Some ws
          \<and> \<not> Number_less (range' (item ws))
                (Cell_cardinalPositionDistance C
                   (Map_getCell C (Game.map' game) (position (heap game (actor a))))
                   (Map_getCell C (Game.map' game) (position (heap game (character tp)))))
          \<and> (Animal.row (heap game (character tp)) = Animal.row (heap game (actor a))
               \<or> Animal.col (heap game (character tp)) = Animal.col (heap game (actor a)))
          \<and> \<not> list_ex (Cell_isBarrier C)
                (map (Map_getCell C (Game.map' game))
                   (Cell_getPositionsBetween C (position (heap game (character tp)))
                      (position (heap game (actor a)))))
          \<and> (Weapon_isWeaponGun C (item ws) \<longrightarrow>
                Inventory_hasItem C (inventory (heap game (actor a))) (bullet (item ws))
                \<and> (\<exists>bulletStack.
                      Inventory_getItem C (inventory (heap game (actor a))) (bullet (item ws))
                        = Some bulletStack
                      \<and> \<not> Number_less (stackAmount bulletStack) (times' a))))"
  by (auto simp: ATTACK_validate_def Let_def split: option.splits if_splits)

lemma ATTACK_validate_valid:
  "ATTACK_validate C a game = Inr r \<Longrightarrow> isValid r \<Longrightarrow> r = \<lparr>isValid = True, error = None\<rparr>"
  by (auto simp: ATTACK_validate_def Let_def split: option.splits if_splits)

text \<open>
  C4, as the code has it. \<^verbatim>\<open>ATTACK_COMPONENT.validate\<close> accepts an attack exactly when the
  weapon is the fist or in the inventory, the number of times is finite and positive, some
  playing participant matches the target-name fragment, and for the first match in roster
  order, whatever the roster holds after it, the weapon stack is resolved, the target is
  in range, in a straight line, behind no barrier and, for a gun, the bullets suffice.
  So an accepted attack has a target, the first match: every player before it fails the
  test. If no playing participant matches, \<^verbatim>\<open>validate\<close> answers without a fault, with isValid
  false and a reason. Several matches are no ground for a rejection.
\<close>

theorem ATTACK_validate_target:
  "(ATTACK_validate C a game = Inr \<lparr>isValid = True, error = None\<rparr> \<longleftrightarrow>
      (weaponName a = ''Fist''
         \<or> Inventory_hasItem C (inventory (heap game (actor a))) (weaponName a))
      \<and> isFinite (times' a) \<and> \<not> Number_lessEq (times' a) (Num 0)
      \<and> (\<exists>before tp rest ws.
           players game = before @ tp # rest
           \<and> isPlaying C game tp \<and> isApproximateSubstring C (targetName a) (name tp)
           \<and> (\<forall>p \<in> set before.
                 \<not> (isPlaying C game p \<and> isApproximateSubstring C (targetName a) (name p)))
           \<and> attackWeaponStack C (inventory (heap game (actor a))) (weaponName a) = Some ws
           \<and> \<not> Number_less (range' (item ws))
                 (Cell_cardinalPositionDistance C
                    (Map_getCell C (Game.map' game) (position (heap game (actor a))))
                    (Map_getCell C (Game.map' game) (position (heap game (character tp)))))
           \<and> (Animal.row (heap game (character tp)) = Animal.row (heap game (actor a))
                \<or> Animal.col (heap game (character tp)) = Animal.col (heap game (actor a)))
           \<and> \<not> list_ex (Cell_isBarrier C)
                 (map (Map_getCell C (Game.map' game))
                    (Cell_getPositionsBetween C (position (heap game (character tp)))
                       (position (heap game (actor a)))))
           \<and> (Weapon_isWeaponGun C (item ws) \<longrightarrow>
                 Inventory_hasItem C (inventory (heap game (actor a))) (bullet (item ws))
                 \<and> (\<exists>bulletStack.
                       Inventory_getItem C (inventory (heap game (actor a))) (bullet (item ws))
                         = Some bulletStack
                       \<and> \<not> Number_less (stackAmount bulletStack) (times' a)))))
   \<and> (\<forall>r. ATTACK_validate C a game = Inr r \<and> isValid r \<longrightarrow>
      r = \<lparr>isValid = True, error = None\<rparr>
      \<and> (\<exists>before tp rest.
         players game = before @ tp # rest
         \<and> findTarget C game (targetName a) = Some tp
         \<and> isPlaying C game tp \<and> isApproximateSubstring C (targetName a) (name tp)
         \<and> (\<forall>p \<in> set before.
               \<not> (isPlaying C game p \<and> isApproximateSubstring C (targetName a) (name p)))))
   \<and> ((\<forall>p \<in> set (players game).
          \<not> (isPlaying C game p \<and> isApproximateSubstring C (targetName a) (name p))) \<longrightarrow>
        (\<exists>r. ATTACK_validate C a game = Inr r \<and> \<not> isValid r \<and> error r \<noteq> None))"
proof (intro conjI allI impI)
  show "ATTACK_validate C a game = Inr \<lparr>isValid = True, error = None\<rparr> \<longleftrightarrow>
      (weaponName a = ''Fist''
         \<or> Inventory_hasItem C (inventory (heap game (actor a))) (weaponName a))
      \<and> isFinite (times' a) \<and> \<not> Number_lessEq (times' a) (Num 0)
      \<and> (\<exists>before tp rest ws.
           players game = before @ tp # rest
           \<and> isPlaying C game tp \<and> isApproximateSubstring C (targetName a) (name tp)
           \<and> (\<forall>p \<in> set before.
                 \<not> (isPlaying C game p \<and> isApproximateSubstring C (targetName a) (name p)))
           \<and> attackWeaponStack C (inventory (heap game (actor a))) (weaponName a) = Some ws
           \<and> \<not> Number_less (range' (item ws))
                 (Cell_cardinalPositionDistance C
                    (Map_getCell C (Game.map' game) (position (heap game (actor a))))
                    (Map_getCell C (Game.map' game) (position (heap game (character tp)))))
           \<and> (Animal.row (heap game (character tp)) = Animal.row (heap game (actor a))
                \<or> Animal.col (heap game (character tp)) = Animal.col (heap game (actor a)))
           \<and> \<not> list_ex (Cell_isBarrier C)
                 (map (Map_getCell C (Game.map' game))
                    (Cell_getPositionsBetween C (position (heap game (character tp)))
                       (position (heap game (actor a)))))
           \<and> (Weapon_isWeaponGun C (item ws) \<longrightarrow>
                 Inventory_hasItem C (inventory (heap game (actor a))) (bullet (item ws))
                 \<and> (\<exists>bulletStack.
                       Inventory_getItem C (inventory (heap game (actor a))) (bullet (item ws))
                         = Some bulletStack
                       \<and> \<not> Number_less (stackAmount bulletStack) (times' a))))"
    unfolding ATTACK_validate_accept_iff findTarget_first by blast
next
  fix r
  assume v: "ATTACK_validate C a game = Inr r \<and> isValid r"
  then show "r = \<lparr>isValid = True, error = None\<rparr>"
    using ATTACK_validate_valid by blast
next
  fix r
  assume v: "ATTACK_validate C a game = Inr r \<and> isValid r"
  then obtain tp where tp: "findTarget C game (targetName a) = Some tp"
    using ATTACK_validate_accepts[of C a game r] by auto
  from tp[unfolded findTarget_first] tp
  show "\<exists>before tp rest.
         players game = before @ tp # rest
         \<and> findTarget C game (targetName a) = Some tp
         \<and> isPlaying C game tp \<and> isApproximateSubstring C (targetName a) (name tp)
         \<and> (\<forall>p \<in> set before.
               \<not> (isPlaying C game p \<and> isApproximateSubstring C (targetName a) (name p)))"
    by blast
next
  assume none: "\<forall>p \<in> set (players game).
      \<not> (isPlaying C game p \<and> isApproximateSubstring C (targetName a) (name p))"
  then have "findTarget C game (targetName a) = None"
    by (auto simp: findTarget_def find_None_iff)
  then show "\<exists>r. ATTACK_validate C a game = Inr r \<and> \<not> isValid r \<and> error r \<noteq> None"
    by (simp add: ATTACK_validate_def Let_def)
qed

theorem ATTACK_validate_target_witness:
  "ATTACK_validate sampleCollaborators (attackWith 0 ''bobby'' ''Pistol'' 4) sampleGame
     = Inr \<lparr>isValid = True, error = None\<rparr>
   \<and> findTarget sampleCollaborators sampleGame ''bobby'' = Some bobby
   \<and> findTarget sampleCollaborators sampleGame ''carol'' = None
   \<and> ATTACK_validate sampleCollaborators (attackWith 0 ''carol'' ''Pistol'' 4) sampleGame
     = Inr \<lparr>isValid = False, error = Some (''No player with name '' @ [CHR 0x27] @ ''carol''
         @ [CHR 0x27] @ ''!'')\<rparr>
   \<and> players sampleGame = [alice] @ bob # [bobby]
   \<and> ATTACK_validate sampleCollaborators (attackWith 0 ''b'' ''Fist'' 1) sampleGame
     = Inr \<lparr>isValid = True, error = None\<rparr>"
proof -
  have v: "ATTACK_validate sampleCollaborators (attackWith 0 ''bobby'' ''Pistol'' 4) sampleGame
     = Inr \<lparr>isValid = True, error = None\<rparr>"
    by (simp add: validate_defs sample_defs)
  have n: "\<forall>p \<in> set (players sampleGame).
         \<not> (isPlaying sampleCollaborators sampleGame p
            \<and> isApproximateSubstring sampleCollaborators ''carol'' (name p))"
    by (simp add: sample_defs)
  have c: "ATTACK_validate sampleCollaborators (attackWith 0 ''carol'' ''Pistol'' 4) sampleGame
     = Inr \<lparr>isValid = False, error = Some (''No player with name '' @ [CHR 0x27] @ ''carol''
         @ [CHR 0x27] @ ''!'')\<rparr>"
    by (simp add: validate_defs sample_defs)
  have t: "targetName (attackWith 0 ''bobby'' ''Pistol'' 4) = ''bobby''"
      "targetName (attackWith 0 ''carol'' ''Pistol'' 4) = ''carol''"
    by (simp_all add: attackWith_def)
  have f0: "\<exists>tp. findTarget sampleCollaborators sampleGame
      (targetName (attackWith 0 ''bobby'' ''Pistol'' 4)) = Some tp"
    using ATTACK_validate_target[of sampleCollaborators "attackWith 0 ''bobby'' ''Pistol'' 4"
        sampleGame, THEN conjunct2, THEN conjunct1] v
    by fastforce
  have f: "findTarget sampleCollaborators sampleGame ''bobby'' = Some bobby"
    using f0 t by (simp add: sample_defs findTarget_def)
  have e: "findTarget sampleCollaborators sampleGame ''carol'' = None"
    using n by (auto simp: findTarget_def find_None_iff)
  have c0: "\<exists>r. ATTACK_validate sampleCollaborators (attackWith 0 ''carol'' ''Pistol'' 4)
      sampleGame = Inr r \<and> \<not> isValid r \<and> error r \<noteq> None"
    using ATTACK_validate_target[of sampleCollaborators "attackWith 0 ''carol'' ''Pistol'' 4"
        sampleGame, THEN conjunct2, THEN conjunct2] n t
    by simp
  have s: "players sampleGame = [alice] @ bob # [bobby]"
    by (simp add: sample_defs)
  have m: "(weaponName (attackWith 0 ''b'' ''Fist'' 1) = ''Fist''
         \<or> Inventory_hasItem sampleCollaborators
             (inventory (heap sampleGame (actor (attackWith 0 ''b'' ''Fist'' 1))))
             (weaponName (attackWith 0 ''b'' ''Fist'' 1)))
      \<and> isFinite (times' (attackWith 0 ''b'' ''Fist'' 1))
      \<and> \<not> Number_lessEq (times' (attackWith 0 ''b'' ''Fist'' 1)) (Num 0)
      \<and> (\<exists>before tp rest ws.
           players sampleGame = before @ tp # rest
           \<and> isPlaying sampleCollaborators sampleGame tp
           \<and> isApproximateSubstring sampleCollaborators
               (targetName (attackWith 0 ''b'' ''Fist'' 1)) (name tp)
           \<and> (\<forall>p \<in> set before.
                 \<not> (isPlaying sampleCollaborators sampleGame p
                    \<and> isApproximateSubstring sampleCollaborators
                        (targetName (attackWith 0 ''b'' ''Fist'' 1)) (name p)))
           \<and> attackWeaponStack sampleCollaborators
               (inventory (heap sampleGame (actor (attackWith 0 ''b'' ''Fist'' 1))))
               (weaponName (attackWith 0 ''b'' ''Fist'' 1)) = Some ws
           \<and> \<not> Number_less (range' (item ws))
                 (Cell_cardinalPositionDistance sampleCollaborators
                    (Map_getCell sampleCollaborators (Game.map' sampleGame)
                       (position (heap sampleGame (actor (attackWith 0 ''b'' ''Fist'' 1)))))
                    (Map_getCell sampleCollaborators (Game.map' sampleGame)
                       (position (heap sampleGame (character tp)))))
           \<and> (Animal.row (heap sampleGame (character tp))
                  = Animal.row (heap sampleGame (actor (attackWith 0 ''b'' ''Fist'' 1)))
                \<or> Animal.col (heap sampleGame (character tp))
                  = Animal.col (heap sampleGame (actor (attackWith 0 ''b'' ''Fist'' 1))))
           \<and> \<not> list_ex (Cell_isBarrier sampleCollaborators)
                 (map (Map_getCell sampleCollaborators (Game.map' sampleGame))
                    (Cell_getPositionsBetween sampleCollaborators
                       (position (heap sampleGame (character tp)))
                       (position (heap sampleGame (actor (attackWith 0 ''b'' ''Fist'' 1))))))
           \<and> (Weapon_isWeaponGun sampleCollaborators (item ws) \<longrightarrow>
                 Inventory_hasItem sampleCollaborators
                   (inventory (heap sampleGame (actor (attackWith 0 ''b'' ''Fist'' 1))))
                   (bullet (item ws))
                 \<and> (\<exists>bulletStack.
                       Inventory_getItem sampleCollaborators
                         (inventory (heap sampleGame (actor (attackWith 0 ''b'' ''Fist'' 1))))
                         (bullet (item ws)) = Some bulletStack
                       \<and> \<not> Number_less (stackAmount bulletStack)
                             (times' (attackWith 0 ''b'' ''Fist'' 1)))))"
    apply (intro conjI)
       apply (simp add: sample_defs)
      apply (simp add: sample_defs)
     apply (simp add: sample_defs)
    apply (rule exI[of _ "[alice]"], rule exI[of _ bob], rule exI[of _ "[bobby]"],
        rule exI[of _ "createItemStack fist (Num 1) (Num 1)"])
    apply (simp add: sample_defs attackWeaponStack_def position_def)
    done
  have b: "ATTACK_validate sampleCollaborators (attackWith 0 ''b'' ''Fist'' 1) sampleGame
     = Inr \<lparr>isValid = True, error = None\<rparr>"
    using ATTACK_validate_target[of sampleCollaborators "attackWith 0 ''b'' ''Fist'' 1"
        sampleGame, THEN conjunct1, THEN iffD2, OF m] .
  from f v e c c0 s b show ?thesis
    by simp
qed

text \<open>The fragment \<^verbatim>\<open>bo\<close> matches the playing participants Bob and Bobby; \<^verbatim>\<open>validate\<close>
  accepts the attack and means Bob.\<close>

theorem ATTACK_validate_unique_counterexample:
  "isPlaying sampleCollaborators sampleGame bob
   \<and> isApproximateSubstring sampleCollaborators ''bo'' (name bob)
   \<and> isPlaying sampleCollaborators sampleGame bobby
   \<and> isApproximateSubstring sampleCollaborators ''bo'' (name bobby)
   \<and> bob \<noteq> bobby
   \<and> players sampleGame = [alice, bob, bobby]
   \<and> ATTACK_validate sampleCollaborators (attackWith 0 ''bo'' ''Pistol'' 4) sampleGame
       = Inr \<lparr>isValid = True, error = None\<rparr>"
  by (simp add: validate_defs sample_defs)

section \<open>Rest\<close>

text \<open>
  C2, as the code has it. For a participant-controlled actor, \<^verbatim>\<open>REST_COMPONENT.perform\<close>
  sets the current value of the exhaustion meter to its maximum, whether or not it then
  finds the player; when the player is present, the one message to that player says that
  they no longer feel exhausted if the meter was active before, and is the generic rested
  message otherwise. For any other actor \<^verbatim>\<open>perform\<close> changes nothing and sends no message.
\<close>

theorem REST_perform_restores:
  "(isPlayerCharacter (heap game (actor a)) \<longrightarrow>
      current (exhaustion (effects (heap (fst (REST_perform C a game lg)) (actor a))))
        = maximum (exhaustion (effects (heap game (actor a))))
      \<and> maximum (exhaustion (effects (heap (fst (REST_perform C a game lg)) (actor a))))
        = maximum (exhaustion (effects (heap game (actor a))))
      \<and> (\<forall>player. Game_getPlayer C (fst (REST_perform C a game lg))
              (the (playerId (heap game (actor a)))) = Some player \<longrightarrow>
            snd (REST_perform C a game lg) = Inr \<lparr>log = lg, messages =
              [createGameMessage
                 (if Character_meterIsActive C (exhaustion (effects (heap game (actor a))))
                  then ''You rested at the camp and no longer feel exhausted.''
                  else ''You rested at the camp.'') [player]]\<rparr>))
   \<and> (\<not> isPlayerCharacter (heap game (actor a)) \<longrightarrow>
        REST_perform C a game lg = (game, Inr \<lparr>log = lg, messages = []\<rparr>))"
  by (auto simp: REST_perform_def Let_def split: option.splits)

theorem REST_perform_restores_witness:
  "isPlayerCharacter (heap sampleGame (actor (restOf 0)))
   \<and> Game_getPlayer sampleCollaborators (fst (REST_perform sampleCollaborators (restOf 0)
        sampleGame [])) (the (playerId (heap sampleGame (actor (restOf 0))))) = Some alice
   \<and> current (exhaustion (effects (heap sampleGame 0))) = 3
   \<and> current (exhaustion (effects (heap (fst (REST_perform sampleCollaborators (restOf 0)
        sampleGame [])) 0))) = 10
   \<and> snd (REST_perform sampleCollaborators (restOf 0) sampleGame []) = Inr \<lparr>log = [],
        messages = [createGameMessage ''You rested at the camp and no longer feel exhausted.''
          [alice]]\<rparr>
   \<and> \<not> isPlayerCharacter (heap sampleGame (actor (restOf 3)))
   \<and> REST_perform sampleCollaborators (restOf 3) sampleGame []
        = (sampleGame, Inr \<lparr>log = [], messages = []\<rparr>)"
proof -
  have p: "isPlayerCharacter (heap sampleGame (actor (restOf 0)))"
    "\<not> isPlayerCharacter (heap sampleGame (actor (restOf 3)))"
    by (simp_all add: isPlayerCharacter_def restOf_def sample_defs)
  have g: "Game_getPlayer sampleCollaborators (fst (REST_perform sampleCollaborators (restOf 0)
        sampleGame [])) (the (playerId (heap sampleGame (actor (restOf 0))))) = Some alice"
    by (simp add: REST_validate_def REST_perform_def isPlayerCharacter_def restOf_def Let_def
      sample_defs)
  have m: "maximum (exhaustion (effects (heap sampleGame 0))) = 10"
    "current (exhaustion (effects (heap sampleGame 0))) = 3"
    "Character_meterIsActive sampleCollaborators (exhaustion (effects (heap sampleGame 0)))"
    "actor (restOf 0) = 0"
    by (simp_all add: restOf_def sample_defs)
  from REST_perform_restores[of sampleGame "restOf 0" sampleCollaborators "[]"]
    REST_perform_restores[of sampleGame "restOf 3" sampleCollaborators "[]"] p g m
  show ?thesis
    by simp
qed

text \<open>The wolf rests: its exhaustion meter stays at 3 of 10.\<close>

theorem REST_perform_every_actor_counterexample:
  "REST_validate sampleCollaborators (restOf 3) sampleGame = Inr \<lparr>isValid = True, error = None\<rparr>
   \<and> snd (REST_perform sampleCollaborators (restOf 3) sampleGame [])
     = Inr \<lparr>log = [], messages = []\<rparr>
   \<and> current (exhaustion (effects (heap (fst (REST_perform sampleCollaborators (restOf 3)
        sampleGame [])) 3))) = 3
   \<and> maximum (exhaustion (effects (heap (fst (REST_perform sampleCollaborators (restOf 3)
        sampleGame [])) 3))) = 10"
  by (simp add: REST_validate_def REST_perform_def isPlayerCharacter_def restOf_def Let_def
      sample_defs)

section \<open>Pass\<close>

text \<open>
  C6. \<^verbatim>\<open>PASS_COMPONENT.validate\<close> accepts every Pass action in every game, and
  \<^verbatim>\<open>PASS_COMPONENT.perform\<close> leaves the whole game state (stats, inventory and position of
  every animal, the map, the roster) and the log as they were. When it returns, its
  result carries no message for an actor that is not participant-controlled, and exactly
  the acknowledgment to the actor's player otherwise.
\<close>

theorem PASS_no_effect:
  "PASS_validate a game = Inr \<lparr>isValid = True, error = None\<rparr>
   \<and> fst (PASS_perform C a game lg) = game
   \<and> (\<not> isPlayerCharacter (heap game (actor a)) \<longrightarrow>
        snd (PASS_perform C a game lg) = Inr \<lparr>log = lg, messages = []\<rparr>)
   \<and> (\<forall>player. isPlayerCharacter (heap game (actor a))
          \<and> Game_getPlayer C game (the (playerId (heap game (actor a)))) = Some player \<longrightarrow>
        snd (PASS_perform C a game lg) = Inr \<lparr>log = lg, messages =
          [createGameMessage ''You performed no action.'' [player]]\<rparr>)
   \<and> (\<forall>res. snd (PASS_perform C a game lg) = Inr res \<longrightarrow>
        log res = lg \<and> length (messages res) \<le> 1
        \<and> (\<forall>m \<in> set (messages res). content m = ''You performed no action.''))"
  by (auto simp: PASS_validate_def PASS_perform_def Let_def createGameMessage_def
      split: option.splits)

theorem PASS_no_effect_witness:
  "PASS_validate (passOf 0) sampleGame = Inr \<lparr>isValid = True, error = None\<rparr>
   \<and> fst (PASS_perform sampleCollaborators (passOf 0) sampleGame []) = sampleGame
   \<and> isPlayerCharacter (heap sampleGame (actor (passOf 0)))
   \<and> Game_getPlayer sampleCollaborators sampleGame
        (the (playerId (heap sampleGame (actor (passOf 0))))) = Some alice
   \<and> snd (PASS_perform sampleCollaborators (passOf 0) sampleGame [])
        = Inr \<lparr>log = [], messages = [createGameMessage ''You performed no action.'' [alice]]\<rparr>
   \<and> \<not> isPlayerCharacter (heap sampleGame (actor (passOf 3)))
   \<and> snd (PASS_perform sampleCollaborators (passOf 3) sampleGame [])
        = Inr \<lparr>log = [], messages = []\<rparr>"
proof -
  have p: "isPlayerCharacter (heap sampleGame (actor (passOf 0)))"
    "\<not> isPlayerCharacter (heap sampleGame (actor (passOf 3)))"
    by (simp_all add: isPlayerCharacter_def passOf_def sample_defs)
  have g: "Game_getPlayer sampleCollaborators sampleGame
        (the (playerId (heap sampleGame (actor (passOf 0))))) = Some alice"
    by (simp add: passOf_def sample_defs)
  from PASS_no_effect[of "passOf 0" sampleGame sampleCollaborators "[]"]
    PASS_no_effect[of "passOf 3" sampleGame sampleCollaborators "[]"] p g
  show ?thesis
    by simp
qed

section \<open>Ingest: rejection and fault\<close>

text \<open>
  C7. \<^verbatim>\<open>INGEST_COMPONENT.validate\<close> never raises: it returns a validation result, which is
  isValid false exactly when the named item is absent from the actor's inventory, and
  then carries a reason. \<^verbatim>\<open>INGEST_COMPONENT.perform\<close> raises a fault, and returns no
  rejection, when the item that \<^verbatim>\<open>Inventory.removeFromInventory\<close> took out of the inventory
  is not ingestible.
\<close>

theorem INGEST_two_tiers:
  "(\<exists>r. INGEST_validate C a game = Inr r
        \<and> (\<not> isValid r \<longleftrightarrow>
             \<not> Inventory_hasItem C (inventory (heap game (actor a))) (IngestAction.itemName a))
        \<and> (\<not> isValid r \<longrightarrow> error r \<noteq> None)
        \<and> (isValid r \<longrightarrow> error r = None))
   \<and> (\<forall>newInventory itemStack.
         Inventory_removeFromInventory C (inventory (heap game (actor a)))
           (IngestAction.itemName a) (Num 1) = Inr (newInventory, itemStack)
         \<and> \<not> Ingestible_itemIsIngestible C (item itemStack) \<longrightarrow>
         snd (INGEST_perform C a game lg) =
           Inl (Error (''Tried to ingest an item that is not ingestible: '' @ [CHR 0x27]
             @ Item.name (item itemStack) @ [CHR 0x27])))"
  by (auto simp: INGEST_validate_def INGEST_perform_def Let_def)

theorem INGEST_two_tiers_witness:
  "\<not> Inventory_hasItem sampleCollaborators (inventory (heap sampleGame (actor (ingestOf 0 ''Stew''))))
       (IngestAction.itemName (ingestOf 0 ''Stew''))
   \<and> INGEST_validate sampleCollaborators (ingestOf 0 ''Stew'') sampleGame
        = Inr \<lparr>isValid = False, error = Some ''Missing Stew in inventory!''\<rparr>
   \<and> INGEST_validate sampleCollaborators (ingestOf 0 ''Rock'') sampleGame
        = Inr \<lparr>isValid = True, error = None\<rparr>
   \<and> Inventory_removeFromInventory sampleCollaborators
        (inventory (heap sampleGame (actor (ingestOf 0 ''Rock''))))
        (IngestAction.itemName (ingestOf 0 ''Rock'')) (Num 1)
        = Inr (\<lparr>itemStacks = [createItemStack pistol (Num 1) (Num 1), bullets 6]\<rparr>,
               createItemStack (basicItem ''Rock'') (Num 1) (Num 5))
   \<and> \<not> Ingestible_itemIsIngestible sampleCollaborators
         (item (createItemStack (basicItem ''Rock'') (Num 1) (Num 5)))
   \<and> snd (INGEST_perform sampleCollaborators (ingestOf 0 ''Rock'') sampleGame [])
        = Inl (Error (''Tried to ingest an item that is not ingestible: '' @ [CHR 0x27]
             @ ''Rock'' @ [CHR 0x27]))"
proof -
  have h: "\<not> Inventory_hasItem sampleCollaborators
      (inventory (heap sampleGame (actor (ingestOf 0 ''Stew''))))
      (IngestAction.itemName (ingestOf 0 ''Stew''))"
    "Inventory_hasItem sampleCollaborators
      (inventory (heap sampleGame (actor (ingestOf 0 ''Rock''))))
      (IngestAction.itemName (ingestOf 0 ''Rock''))"
    by (simp_all add: ingestOf_def sample_defs)
  have v: "INGEST_validate sampleCollaborators (ingestOf 0 ''Stew'') sampleGame
        = Inr \<lparr>isValid = False, error = Some ''Missing Stew in inventory!''\<rparr>"
    "INGEST_validate sampleCollaborators (ingestOf 0 ''Rock'') sampleGame
        = Inr \<lparr>isValid = True, error = None\<rparr>"
    by (simp_all add: INGEST_validate_def ingestOf_def sample_defs)
  have r: "Inventory_removeFromInventory sampleCollaborators
        (inventory (heap sampleGame (actor (ingestOf 0 ''Rock''))))
        (IngestAction.itemName (ingestOf 0 ''Rock'')) (Num 1)
        = Inr (\<lparr>itemStacks = [createItemStack pistol (Num 1) (Num 1), bullets 6]\<rparr>,
               createItemStack (basicItem ''Rock'') (Num 1) (Num 5))"
    by (simp add: ingestOf_def sample_defs)
  have i: "\<not> Ingestible_itemIsIngestible sampleCollaborators
         (item (createItemStack (basicItem ''Rock'') (Num 1) (Num 5)))"
    "Item.name (item (createItemStack (basicItem ''Rock'') (Num 1) (Num 5))) = ''Rock''"
    by (simp_all add: sample_defs)
  from INGEST_two_tiers[of sampleCollaborators "ingestOf 0 ''Rock''" sampleGame "[]"] h v r i
  show ?thesis
    by simp
qed

section \<open>Capacity check of a pickup\<close>

text \<open>
  C3, as the code has it. Take a Pickup action with an explicit amount, an actor whose
  inventory is full, and an amount that, added to the actor's stack of the same item,
  exceeds the maximum of that stack. Then \<^verbatim>\<open>PICKUP_ACTION.validate\<close> returns isValid false
  with a reason exactly when the actor stands in a room and, if the room has the item, the
  amount is finite and, if it is at least 1, the room's stack is resolved. In the other
  cases it throws: outside a room, for an amount that is not finite of an item of the
  room, and for an unresolved stack of the room once the amount has passed. The capacity
  of the stack is checked on a full inventory only: when the inventory is not full, a
  finite amount between 1 and what the room holds is accepted, whatever stack the actor
  has.
\<close>

theorem PICKUP_validate_capacity:
  "(\<forall>n playerStack.
      transactionAmount a = Some n
      \<and> Inventory_inventoryIsFull C (inventory (heap game (actor a)))
      \<and> Inventory_getItem C (inventory (heap game (actor a))) (ItemTransaction.itemName a)
           = Some playerStack
      \<and> Number_less (maxStackAmount playerStack) (Number_add (stackAmount playerStack) n)
      \<longrightarrow>
        ((\<exists>r. PICKUP_validate C a game = Inr r \<and> \<not> isValid r \<and> error r \<noteq> None)
         \<longleftrightarrow>
           Cell_isRoom C (Map_getCell C (Game.map' game) (position (heap game (actor a))))
           \<and> (Item_hasItem C
                 (items (Map_getCell C (Game.map' game) (position (heap game (actor a)))))
                 (ItemTransaction.itemName a) \<longrightarrow>
               isFinite n
               \<and> (\<not> Number_less n (Num 1) \<longrightarrow>
                    Item_getItem C
                      (items (Map_getCell C (Game.map' game) (position (heap game (actor a)))))
                      (ItemTransaction.itemName a) \<noteq> None)))
        \<and> (\<not> Cell_isRoom C (Map_getCell C (Game.map' game) (position (heap game (actor a))))
            \<longrightarrow> PICKUP_validate C a game = Inl (Error ''Actor is not in a room!''))
        \<and> (Cell_isRoom C (Map_getCell C (Game.map' game) (position (heap game (actor a))))
            \<and> Item_hasItem C
                (items (Map_getCell C (Game.map' game) (position (heap game (actor a)))))
                (ItemTransaction.itemName a)
            \<and> \<not> isFinite n
            \<longrightarrow> PICKUP_validate C a game
                  = Inl (Error ''Transaction amount exists but is not finite!''))
        \<and> (Cell_isRoom C (Map_getCell C (Game.map' game) (position (heap game (actor a))))
            \<and> Item_hasItem C
                (items (Map_getCell C (Game.map' game) (position (heap game (actor a)))))
                (ItemTransaction.itemName a)
            \<and> isFinite n \<and> \<not> Number_less n (Num 1)
            \<and> Item_getItem C
                (items (Map_getCell C (Game.map' game) (position (heap game (actor a)))))
                (ItemTransaction.itemName a) = None
            \<longrightarrow> PICKUP_validate C a game = Inl TypeError))
   \<and> (\<forall>n st.
      transactionAmount a = Some n
      \<and> \<not> Inventory_inventoryIsFull C (inventory (heap game (actor a)))
      \<and> Cell_isRoom C (Map_getCell C (Game.map' game) (position (heap game (actor a))))
      \<and> Item_hasItem C (items (Map_getCell C (Game.map' game) (position (heap game (actor a)))))
           (ItemTransaction.itemName a)
      \<and> Item_getItem C (items (Map_getCell C (Game.map' game) (position (heap game (actor a)))))
           (ItemTransaction.itemName a) = Some st
      \<and> isFinite n \<and> \<not> Number_less n (Num 1) \<and> \<not> Number_less (stackAmount st) n
      \<longrightarrow> PICKUP_validate C a game = Inr \<lparr>isValid = True, error = None\<rparr>)"
  by (auto simp: PICKUP_validate_def Let_def split: if_splits option.splits sum.splits)

lemmas pickup_defs =
  PICKUP_validate_def position_def pickupOf_def showInt_def showNat.simps Let_def

theorem PICKUP_validate_capacity_witness:
  "transactionAmount (pickupOf 0 ''Bullet'' (Some (Num 7))) = Some (Num 7)
   \<and> Inventory_inventoryIsFull sampleCollaborators (inventory (heap sampleGame 0))
   \<and> Inventory_getItem sampleCollaborators (inventory (heap sampleGame 0)) ''Bullet''
        = Some (bullets 6)
   \<and> Number_less (maxStackAmount (bullets 6)) (Number_add (stackAmount (bullets 6)) (Num 7))
   \<and> PICKUP_validate sampleCollaborators (pickupOf 0 ''Bullet'' (Some (Num 7))) sampleGame
        = Inr \<lparr>isValid = False, error = Some ''You can only hold 10 Bullet(s)!''\<rparr>
   \<and> Number_less (maxStackAmount (bullets 6)) (Number_add (stackAmount (bullets 6)) Infinity)
   \<and> PICKUP_validate sampleCollaborators (pickupOf 0 ''Bullet'' (Some Infinity)) sampleGame
        = Inl (Error ''Transaction amount exists but is not finite!'')
   \<and> \<not> Inventory_inventoryIsFull sampleCollaborators (inventory (heap sampleGame 2))
   \<and> Item_getItem sampleCollaborators
        (items (Map_getCell sampleCollaborators (Game.map' sampleGame)
           (position (heap sampleGame 2)))) ''Bullet'' = Some (bullets 3)
   \<and> PICKUP_validate sampleCollaborators (pickupOf 2 ''Bullet'' (Some (Num 2))) sampleGame
        = Inr \<lparr>isValid = True, error = None\<rparr>"
proof -
  have f: "Inventory_inventoryIsFull sampleCollaborators (inventory (heap sampleGame 0))"
    "Inventory_getItem sampleCollaborators (inventory (heap sampleGame 0)) ''Bullet''
        = Some (bullets 6)"
    "Number_less (maxStackAmount (bullets 6)) (Number_add (stackAmount (bullets 6)) (Num 7))"
    "Number_less (maxStackAmount (bullets 6)) (Number_add (stackAmount (bullets 6)) Infinity)"
    by (simp_all add: sample_defs)
  have v: "PICKUP_validate sampleCollaborators (pickupOf 0 ''Bullet'' (Some (Num 7))) sampleGame
        = Inr \<lparr>isValid = False, error = Some ''You can only hold 10 Bullet(s)!''\<rparr>"
    by (simp add: pickup_defs sample_defs)
  have z: "Cell_isRoom sampleCollaborators (Map_getCell sampleCollaborators
       (Game.map' sampleGame) (position (heap sampleGame 0)))"
    "Item_hasItem sampleCollaborators
        (items (Map_getCell sampleCollaborators (Game.map' sampleGame)
           (position (heap sampleGame 0)))) ''Bullet''"
    "Item_getItem sampleCollaborators
        (items (Map_getCell sampleCollaborators (Game.map' sampleGame)
           (position (heap sampleGame 0)))) ''Bullet'' = Some (bullets 7)"
    by (simp_all add: position_def sample_defs)
  have n: "\<not> Inventory_inventoryIsFull sampleCollaborators (inventory (heap sampleGame 2))"
    "Cell_isRoom sampleCollaborators (Map_getCell sampleCollaborators (Game.map' sampleGame)
       (position (heap sampleGame 2)))"
    "Item_hasItem sampleCollaborators
        (items (Map_getCell sampleCollaborators (Game.map' sampleGame)
           (position (heap sampleGame 2)))) ''Bullet''"
    "Item_getItem sampleCollaborators
        (items (Map_getCell sampleCollaborators (Game.map' sampleGame)
           (position (heap sampleGame 2)))) ''Bullet'' = Some (bullets 3)"
    "stackAmount (bullets 3) = Num 3"
    by (simp_all add: position_def sample_defs)
  have a: "transactionAmount (pickupOf r ''Bullet'' (Some k)) = Some k"
    "ItemTransaction.itemName (pickupOf r ''Bullet'' (Some k)) = ''Bullet''"
    "actor (pickupOf r ''Bullet'' (Some k)) = r" for r k
    by (simp_all add: pickupOf_def)
  have ok: "PICKUP_validate sampleCollaborators (pickupOf 2 ''Bullet'' (Some (Num 2))) sampleGame
        = Inr \<lparr>isValid = True, error = None\<rparr>"
    using PICKUP_validate_capacity[of "pickupOf 2 ''Bullet'' (Some (Num 2))" sampleCollaborators
        sampleGame, THEN conjunct2] n a
    by simp
  have inf: "PICKUP_validate sampleCollaborators (pickupOf 0 ''Bullet'' (Some Infinity))
      sampleGame = Inl (Error ''Transaction amount exists but is not finite!'')"
    using PICKUP_validate_capacity[of "pickupOf 0 ''Bullet'' (Some Infinity)" sampleCollaborators
        sampleGame, THEN conjunct1] f z a
    by simp
  have "\<exists>r. PICKUP_validate sampleCollaborators (pickupOf 0 ''Bullet'' (Some (Num 7))) sampleGame
      = Inr r \<and> \<not> isValid r \<and> error r \<noteq> None"
    using PICKUP_validate_capacity[of "pickupOf 0 ''Bullet'' (Some (Num 7))" sampleCollaborators
        sampleGame, THEN conjunct1] f z a
    by simp
  with f v n ok inf a show ?thesis
    by simp
qed

text \<open>Bob holds 8 of at most 10 bullets in an inventory that is not full; picking up 5
  more is accepted. Alice holds 6 of at most 10 bullets in a full inventory; for an
  infinite amount \<^verbatim>\<open>validate\<close> throws.\<close>

theorem PICKUP_validate_overflow_counterexample:
  "transactionAmount (pickupOf 1 ''Bullet'' (Some (Num 5))) = Some (Num 5)
   \<and> Inventory_getItem sampleCollaborators (inventory (heap sampleGame 1)) ''Bullet''
        = Some (bullets 8)
   \<and> maxStackAmount (bullets 8) = Num 10
   \<and> Number_add (stackAmount (bullets 8)) (Num 5) = Num 13
   \<and> PICKUP_validate sampleCollaborators (pickupOf 1 ''Bullet'' (Some (Num 5))) sampleGame
        = Inr \<lparr>isValid = True, error = None\<rparr>
   \<and> transactionAmount (pickupOf 0 ''Bullet'' (Some Infinity)) = Some Infinity
   \<and> Inventory_getItem sampleCollaborators (inventory (heap sampleGame 0)) ''Bullet''
        = Some (bullets 6)
   \<and> Number_less (maxStackAmount (bullets 6)) (Number_add (stackAmount (bullets 6)) Infinity)
   \<and> PICKUP_validate sampleCollaborators (pickupOf 0 ''Bullet'' (Some Infinity)) sampleGame
        = Inl (Error ''Transaction amount exists but is not finite!'')"
  by (simp add: pickup_defs sample_defs)

section \<open>Patterns and their languages\<close>

lemma nullable_lang: "nullable r \<longleftrightarrow> [] \<in> lang r"
  by (induction r) (auto simp: conc_def intro: star.nil)

lemma conc_tail:
  "{w. x # w \<in> conc A B} = conc {w. x # w \<in> A} B \<union> (if [] \<in> A then {w. x # w \<in> B} else {})"
proof (intro set_eqI iffI)
  fix w
  assume "w \<in> {w. x # w \<in> conc A B}"
  then obtain u v where uv: "x # w = u @ v" "u \<in> A" "v \<in> B"
    by (auto simp: conc_def)
  show "w \<in> conc {w. x # w \<in> A} B \<union> (if [] \<in> A then {w. x # w \<in> B} else {})"
  proof (cases u)
    case Nil
    with uv show ?thesis by auto
  next
    case (Cons y u')
    with uv have "w = u' @ v" "x # u' \<in> A" by auto
    with uv(3) show ?thesis by (auto simp: conc_def)
  qed
next
  fix w
  assume "w \<in> conc {w. x # w \<in> A} B \<union> (if [] \<in> A then {w. x # w \<in> B} else {})"
  then consider u v where "w = u @ v" "x # u \<in> A" "v \<in> B" | "[] \<in> A" "x # w \<in> B"
    by (auto simp: conc_def split: if_splits)
  then show "w \<in> {w. x # w \<in> conc A B}"
  proof cases
    case 1
    then have "x # w = (x # u) @ v" by simp
    with 1 show ?thesis unfolding conc_def by blast
  next
    case 2
    then have "x # w = [] @ (x # w)" by simp
    with 2 show ?thesis unfolding conc_def by blast
  qed
qed

lemma star_tail_sub:
  assumes "u \<in> star A" and "u = x # w"
  shows "w \<in> conc {w. x # w \<in> A} (star A)"
  using assms
proof (induction arbitrary: w rule: star.induct)
  case nil
  then show ?case by simp
next
  case (step u v)
  show ?case
  proof (cases u)
    case Nil
    with step show ?thesis by simp
  next
    case (Cons y u')
    with step.prems have "w = u' @ v" "y = x" by auto
    with Cons step.hyps show ?thesis by (auto simp: conc_def)
  qed
qed

lemma star_tail: "{w. x # w \<in> star A} = conc {w. x # w \<in> A} (star A)"
proof (intro set_eqI iffI)
  fix w
  assume "w \<in> {w. x # w \<in> star A}"
  then show "w \<in> conc {w. x # w \<in> A} (star A)"
    using star_tail_sub by blast
next
  fix w
  assume "w \<in> conc {w. x # w \<in> A} (star A)"
  then obtain u v where "w = u @ v" "x # u \<in> A" "v \<in> star A"
    by (auto simp: conc_def)
  then have "x # w \<in> star A"
    using star.step[of "x # u" A v] by simp
  then show "w \<in> {w. x # w \<in> star A}" by simp
qed

lemma lang_deriv: "lang (deriv x r) = {w. x # w \<in> lang r}"
proof (induction r)
  case (Seq r s)
  then show ?case
    by (simp add: conc_tail nullable_lang Un_commute)
next
  case (Star r)
  then show ?case
    by (simp add: star_tail)
qed auto

lemma test_lang: "test r w \<longleftrightarrow> w \<in> lang r"
  unfolding test_def
  by (induction w arbitrary: r) (simp_all add: nullable_lang lang_deriv)

lemma lang_lit: "w \<in> lang (lit s) \<longleftrightarrow> toLowerCase w = toLowerCase s \<and> length w = length s"
proof (induction s arbitrary: w)
  case Nil
  then show ?case by (simp add: toLowerCase_def)
next
  case (Cons c cs)
  show ?case
  proof
    assume "w \<in> lang (lit (c # cs))"
    then obtain x v where "w = x # v" "toLowerCaseChar x = toLowerCaseChar c" "v \<in> lang (lit cs)"
      by (auto simp: conc_def)
    with Cons show "toLowerCase w = toLowerCase (c # cs) \<and> length w = length (c # cs)"
      by (simp add: toLowerCase_def)
  next
    assume a: "toLowerCase w = toLowerCase (c # cs) \<and> length w = length (c # cs)"
    then obtain x v where w: "w = x # v" by (cases w) auto
    with a have "toLowerCaseChar x = toLowerCaseChar c" "toLowerCase v = toLowerCase cs"
      "length v = length cs"
      by (simp_all add: toLowerCase_def)
    with Cons have "[x] \<in> lang (Chr c)" "v \<in> lang (lit cs)" by auto
    then have "[x] @ v \<in> conc (lang (Chr c)) (lang (lit cs))"
      unfolding conc_def by blast
    with w show "w \<in> lang (lit (c # cs))" by simp
  qed
qed

lemma lang_alts:
  "ns \<noteq> [] \<Longrightarrow> w \<in> lang (alts ns) \<longleftrightarrow> (\<exists>n \<in> set ns. w \<in> lang (lit n))"
  by (induction ns rule: alts.induct) auto

lemma lang_move:
  assumes "test (pattern C MOVE_COMPONENT) text"
  shows "toLowerCase (drop 3 text) \<in> {''north'', ''south'', ''east'', ''west''}"
proof -
  from assms obtain u v where uv: "text = u @ v" "u \<in> lang (lit ''go '')"
    "v \<in> lang (alts [''north'', ''south'', ''east'', ''west''])"
    by (auto simp: test_lang conc_def simp del: lit.simps alts.simps)
  from uv(2) have "length u = 3" by (simp add: lang_lit del: lit.simps)
  with uv(1) have d: "drop 3 text = v" by simp
  from uv(3) have "\<exists>n \<in> set [''north'', ''south'', ''east'', ''west'']. v \<in> lang (lit n)"
    by (subst (asm) lang_alts) simp_all
  then have "toLowerCase v \<in> toLowerCase ` set [''north'', ''south'', ''east'', ''west'']"
    by (auto simp: lang_lit simp del: lit.simps)
  then show ?thesis
    unfolding d by (simp add: toLowerCase_def toLowerCaseChar_def)
qed

section \<open>Move\<close>

lemma MOVE_perform_position:
  "position (heap (fst (MOVE_perform C move game lg)) (actor move)) =
     (Animal.row (heap game (actor move)) + offsetRow move,
      Animal.col (heap game (actor move)) + offsetCol move)"
  by (simp add: MOVE_perform_def Let_def position_def moveEntity_def split: option.splits)

text \<open>
  C5. For every text that the Move pattern matches, \<^verbatim>\<open>MOVE_COMPONENT.parse\<close> returns a Move
  action of the given actor and timestamp whose offsets have exactly one non-zero
  component, and that component is -1 or 1. Performing a Move action sets the position
  of the actor to \<open>(oldRow + offsetRow, oldCol + offsetCol)\<close>.
\<close>

theorem MOVE_unit_step:
  "(test (pattern C MOVE_COMPONENT) text \<longrightarrow>
      (\<exists>m. MOVE_parse C text r ts = Inr m
         \<and> actor m = r \<and> timestamp m = ts \<and> key m = Move
         \<and> ((offsetRow m = - 1 \<or> offsetRow m = 1) \<and> offsetCol m = 0
            \<or> offsetRow m = 0 \<and> (offsetCol m = - 1 \<or> offsetCol m = 1))))
   \<and> position (heap (fst (MOVE_perform C move game lg)) (actor move)) =
       (Animal.row (heap game (actor move)) + offsetRow move,
        Animal.col (heap game (actor move)) + offsetCol move)"
proof (intro conjI impI)
  assume t: "test (pattern C MOVE_COMPONENT) text"
  from lang_move[OF t] t
  show "\<exists>m. MOVE_parse C text r ts = Inr m
         \<and> actor m = r \<and> timestamp m = ts \<and> key m = Move
         \<and> ((offsetRow m = - 1 \<or> offsetRow m = 1) \<and> offsetCol m = 0
            \<or> offsetRow m = 0 \<and> (offsetCol m = - 1 \<or> offsetCol m = 1))"
    by (auto simp: MOVE_parse_def Let_def simp del: pattern.simps)
next
  show "position (heap (fst (MOVE_perform C move game lg)) (actor move)) =
       (Animal.row (heap game (actor move)) + offsetRow move,
        Animal.col (heap game (actor move)) + offsetCol move)"
    by (rule MOVE_perform_position)
qed

theorem MOVE_unit_step_witness:
  "test (pattern sampleCollaborators MOVE_COMPONENT) ''Go NORTH''
   \<and> MOVE_parse sampleCollaborators ''Go NORTH'' 0 7 = Inr (moveOf 0 (- 1) 0\<lparr>timestamp := 7\<rparr>)
   \<and> position (heap sampleGame 0) = (0, 0)
   \<and> position (heap (fst (MOVE_perform sampleCollaborators (moveOf 0 0 1) sampleGame [])) 0)
        = (0, 1)"
proof -
  have t: "test (pattern sampleCollaborators MOVE_COMPONENT) ''Go NORTH''"
    by (simp add: test_def toLowerCaseChar_def)
  have d: "toLowerCase (drop 3 ''Go NORTH'') = ''north''"
    by (simp add: toLowerCase_def toLowerCaseChar_def)
  have p: "MOVE_parse sampleCollaborators ''Go NORTH'' 0 7 = Inr (moveOf 0 (- 1) 0\<lparr>timestamp := 7\<rparr>)"
    using MOVE_unit_step[of sampleCollaborators "''Go NORTH''" 0 7] t d
    by (auto simp: MOVE_parse_def moveOf_def Let_def simp del: pattern.simps)
  have s: "position (heap sampleGame 0) = (0, 0)"
    by (simp add: position_def sample_defs)
  have m: "position (heap (fst (MOVE_perform sampleCollaborators (moveOf 0 0 1) sampleGame [])) 0)
        = (0, 1)"
    using MOVE_unit_step[of sampleCollaborators "''Go NORTH''" 0 7 "moveOf 0 0 1" sampleGame "[]"]
    by (simp add: moveOf_def sample_defs)
  from t p s m show ?thesis
    by simp
qed

section \<open>The registry of components\<close>

lemma find_first:
  "find P xs = Some x \<longleftrightarrow> (\<exists>ys zs. xs = ys @ x # zs \<and> P x \<and> (\<forall>y \<in> set ys. \<not> P y))"
proof (induction xs)
  case Nil
  then show ?case by simp
next
  case (Cons a xs)
  show ?case
  proof (cases "P a")
    case True
    have "(\<exists>ys zs. a # xs = ys @ x # zs \<and> P x \<and> (\<forall>y \<in> set ys. \<not> P y)) \<longleftrightarrow> a = x"
    proof
      assume "\<exists>ys zs. a # xs = ys @ x # zs \<and> P x \<and> (\<forall>y \<in> set ys. \<not> P y)"
      then obtain ys zs where s: "a # xs = ys @ x # zs" "\<forall>y \<in> set ys. \<not> P y" by blast
      with True show "a = x" by (cases ys) auto
    next
      assume "a = x"
      with True have "a # xs = [] @ x # xs \<and> P x \<and> (\<forall>y \<in> set []. \<not> P y)" by simp
      then show "\<exists>ys zs. a # xs = ys @ x # zs \<and> P x \<and> (\<forall>y \<in> set ys. \<not> P y)" by blast
    qed
    with True show ?thesis by auto
  next
    case False
    have "(\<exists>ys zs. a # xs = ys @ x # zs \<and> P x \<and> (\<forall>y \<in> set ys. \<not> P y))
        \<longleftrightarrow> (\<exists>ys zs. xs = ys @ x # zs \<and> P x \<and> (\<forall>y \<in> set ys. \<not> P y))"
    proof
      assume "\<exists>ys zs. a # xs = ys @ x # zs \<and> P x \<and> (\<forall>y \<in> set ys. \<not> P y)"
      then obtain ys zs where s: "a # xs = ys @ x # zs" "P x" "\<forall>y \<in> set ys. \<not> P y" by blast
      with False obtain ys' where "ys = a # ys'" by (cases ys) auto
      with s show "\<exists>ys zs. xs = ys @ x # zs \<and> P x \<and> (\<forall>y \<in> set ys. \<not> P y)" by auto
    next
      assume "\<exists>ys zs. xs = ys @ x # zs \<and> P x \<and> (\<forall>y \<in> set ys. \<not> P y)"
      then obtain ys zs where s: "xs = ys @ x # zs" "P x" "\<forall>y \<in> set ys. \<not> P y" by blast
      with False have "a # xs = (a # ys) @ x # zs \<and> P x \<and> (\<forall>y \<in> set (a # ys). \<not> P y)"
        by simp
      then show "\<exists>ys zs. a # xs = ys @ x # zs \<and> P x \<and> (\<forall>y \<in> set ys. \<not> P y)" by blast
    qed
    with False Cons show ?thesis by simp
  qed
qed

lemma declaredOrder_all: "c \<in> set declaredOrder"
  by (cases c) (simp_all add: declaredOrder_def)

lemma getComponentByText_find:
  "getComponentByText C text = find (\<lambda>c. test (pattern C c) text) declaredOrder"
  by (simp add: getComponentByText_def PARSERS_def declaredOrder_def del: pattern.simps)

text \<open>
  C8. \<^verbatim>\<open>getComponentByText\<close> returns the first component, in the declared order Move, Pass,
  Rest, Ingest, Attack, Pickup, Drop, whose pattern matches the text: the component that
  it returns matches, and no component declared before it does; it returns nothing
  exactly when no pattern matches. \<^verbatim>\<open>isParsableAction\<close> is true exactly when some
  component's pattern matches, and \<^verbatim>\<open>getComponentByKey\<close> returns, for each of the seven
  kinds, the component registered under it.
\<close>

theorem registry_lookup:
  "getComponentByText C text = find (\<lambda>c. test (pattern C c) text) declaredOrder
   \<and> (\<forall>c. getComponentByText C text = Some c \<longleftrightarrow>
         (\<exists>before rest. declaredOrder = before @ c # rest \<and> test (pattern C c) text
            \<and> (\<forall>c' \<in> set before. \<not> test (pattern C c') text)))
   \<and> (getComponentByText C text = None \<longleftrightarrow> (\<forall>c. \<not> test (pattern C c) text))
   \<and> (isParsableAction C text \<longleftrightarrow> (\<exists>c. test (pattern C c) text))
   \<and> getComponentByKey Move = Inr MOVE_COMPONENT
   \<and> getComponentByKey Pass = Inr PASS_COMPONENT
   \<and> getComponentByKey Rest = Inr REST_COMPONENT
   \<and> getComponentByKey Ingest = Inr INGEST_COMPONENT
   \<and> getComponentByKey Attack = Inr ATTACK_COMPONENT
   \<and> getComponentByKey Pickup = Inr PICKUP_ACTION
   \<and> getComponentByKey Drop = Inr DROP_ACTION
   \<and> (\<forall>c. getComponentByKey (componentKey c) = Inr c)"
proof -
  have none: "getComponentByText C text = None \<longleftrightarrow> (\<forall>c. \<not> test (pattern C c) text)"
    unfolding getComponentByText_find find_None_iff using declaredOrder_all by blast
  then have some: "isParsableAction C text \<longleftrightarrow> (\<exists>c. test (pattern C c) text)"
    by (simp add: isParsableAction_def)
  have first: "\<forall>c. getComponentByText C text = Some c \<longleftrightarrow>
         (\<exists>before rest. declaredOrder = before @ c # rest \<and> test (pattern C c) text
            \<and> (\<forall>c' \<in> set before. \<not> test (pattern C c') text))"
    unfolding getComponentByText_find find_first by simp
  have keys: "getComponentByKey (componentKey c) = Inr c" for c
    by (cases c) (simp_all add: getComponentByKey_def PARSERS_def)
  from keys[of MOVE_COMPONENT] keys[of PASS_COMPONENT] keys[of REST_COMPONENT]
    keys[of INGEST_COMPONENT] keys[of ATTACK_COMPONENT] keys[of PICKUP_ACTION]
    keys[of DROP_ACTION] keys none some first getComponentByText_find
  show ?thesis
    by simp
qed
lemmas pattern_defs =
  test_def plus'_def opt_def search_def sampleCollaborators_def toLowerCaseChar_def
  isWordChar_def isDigit_def isSpace_def

theorem registry_lookup_witness:
  "test (pattern sampleCollaborators ATTACK_COMPONENT) ''attack drop pistol 3''
   \<and> test (pattern sampleCollaborators DROP_ACTION) ''attack drop pistol 3''
   \<and> declaredOrder = [MOVE_COMPONENT, PASS_COMPONENT, REST_COMPONENT, INGEST_COMPONENT]
        @ ATTACK_COMPONENT # [PICKUP_ACTION, DROP_ACTION]
   \<and> \<not> test (pattern sampleCollaborators MOVE_COMPONENT) ''attack drop pistol 3''
   \<and> \<not> test (pattern sampleCollaborators PASS_COMPONENT) ''attack drop pistol 3''
   \<and> \<not> test (pattern sampleCollaborators REST_COMPONENT) ''attack drop pistol 3''
   \<and> \<not> test (pattern sampleCollaborators INGEST_COMPONENT) ''attack drop pistol 3''
   \<and> getComponentByText sampleCollaborators ''attack drop pistol 3'' = Some ATTACK_COMPONENT
   \<and> isParsableAction sampleCollaborators ''attack drop pistol 3''
   \<and> getComponentByText sampleCollaborators ''foobarbaz'' = None
   \<and> \<not> isParsableAction sampleCollaborators ''foobarbaz''"
proof -
  have a: "test (pattern sampleCollaborators ATTACK_COMPONENT) ''attack drop pistol 3''"
    by (simp add: pattern_defs)
  have d: "test (pattern sampleCollaborators DROP_ACTION) ''attack drop pistol 3''"
    by (simp add: pattern_defs)
  have o: "declaredOrder = [MOVE_COMPONENT, PASS_COMPONENT, REST_COMPONENT, INGEST_COMPONENT]
        @ ATTACK_COMPONENT # [PICKUP_ACTION, DROP_ACTION]"
    by (simp add: declaredOrder_def)
  have e: "\<forall>c' \<in> set [MOVE_COMPONENT, PASS_COMPONENT, REST_COMPONENT, INGEST_COMPONENT].
         \<not> test (pattern sampleCollaborators c') ''attack drop pistol 3''"
    by (simp add: pattern_defs)
  have n: "\<not> test (pattern sampleCollaborators c) ''foobarbaz''" for c
    by (cases c) (simp_all add: pattern_defs)
  note r = registry_lookup[of sampleCollaborators "''attack drop pistol 3''"]
  note f = registry_lookup[of sampleCollaborators "''foobarbaz''"]
  have s: "getComponentByText sampleCollaborators ''attack drop pistol 3'' = Some ATTACK_COMPONENT"
    using r a o e by blast
  have p: "isParsableAction sampleCollaborators ''attack drop pistol 3''"
    using r a by blast
  have m: "getComponentByText sampleCollaborators ''foobarbaz'' = None"
    "\<not> isParsableAction sampleCollaborators ''foobarbaz''"
    using f n by blast+
  from a d o e s p m show ?thesis
    by simp
qed

end
